theory Spec2Isabelle
  imports Main "HOL-Library.Word"
begin

section \<open>The greenlet coroutine runtime: data model\<close>

text \<open>
  The development follows the C++ sources of the greenlet extension
  (\<^verbatim>\<open>TStackState.cpp\<close>, \<^verbatim>\<open>TGreenlet.cpp\<close>, \<^verbatim>\<open>TUserGreenlet.cpp\<close>,
  \<^verbatim>\<open>TMainGreenlet.cpp\<close>, \<^verbatim>\<open>greenlet.cpp\<close>, \<^verbatim>\<open>greenlet_greenlet.hpp\<close>).

  Conventions.
  \<^item> A greenlet object is named by a \<open>gid\<close>; the heap of greenlet objects is a total
    function from \<open>gid\<close> to the record \<open>Greenlet\<close>. A pointer to a greenlet, or to the
    \<open>StackState\<close> embedded in it, is a \<open>gid option\<close> (\<open>None\<close> is \<^verbatim>\<open>nullptr\<close>).
  \<^item> A \<^verbatim>\<open>char*\<close> into the native stack is a 64-bit word (both platform files of the
    sources are 64-bit); \<^verbatim>\<open>intptr_t\<close> is a 64-bit word read with \<open>sint\<close>.
  \<^item> An \<^verbatim>\<open>OwnedObject\<close> is a \<open>pyobj option\<close>; reference counts are not modelled.
  \<^item> A function whose C++ original has no defined result on some input (a null pointer
    is dereferenced, a heap copy is read past its end) or does not return (a walk along a
    cyclic pointer chain) yields \<open>None\<close> there. \<^verbatim>\<open>Py_FatalError\<close> is the explicit outcome
    \<open>Fatal\<close>. A C++ \<^verbatim>\<open>PyErrOccurred\<close> is the outcome \<open>Threw\<close> together with the error
    indicator of the interpreter thread state.
  \<^item> \<^verbatim>\<open>assert\<close> statements are compiled out of release builds and are not branches of
    the model, with one exception noted at \<open>copy_stack_to_heap_up_to\<close>.
  \<^item> Memory allocation succeeds (\<^verbatim>\<open>PyMem_Realloc\<close> returns a block), reference counting
    and the garbage collector never run Python code. The test-only subclass
    \<^verbatim>\<open>BrokenGreenlet\<close> is not part of the model.
\<close>

type_synonym gid = nat
type_synonym tid = nat
type_synonym addr = "64 word"
type_synonym byte = "8 word"

subsection \<open>Python objects and errors\<close>

datatype pyobj =
    PyNone
  | PyInt int
  | PyStr string
  | PyTuple "pyobj list"
  | PyDict "(pyobj \<times> pyobj) list"
  | PyGreenletObj gid
  | PyObject nat

datatype exc_kind =
    GreenletExit
  | GreenletExitSubclass string
  | GreenletError
  | SystemError
  | ValueError
  | AttributeError
  | TypeError
  | PyException string

text \<open>The error indicator: exception type and value (the traceback is not modelled).\<close>

datatype pyerr = PyErr exc_kind "pyobj option"

text \<open>\<^verbatim>\<open>PyErr_SetString(kind, msg)\<close>.\<close>

definition PyErr_SetString :: "exc_kind \<Rightarrow> string \<Rightarrow> pyerr" where
  "PyErr_SetString k msg = PyErr k (Some (PyStr msg))"

text \<open>\<^verbatim>\<open>mod_globs->PyExc_GreenletExit.PyExceptionMatches()\<close> on a pending error.\<close>

fun GreenletExit_matches :: "pyerr option \<Rightarrow> bool" where
  "GreenletExit_matches (Some (PyErr GreenletExit _)) = True"
| "GreenletExit_matches (Some (PyErr (GreenletExitSubclass _) _)) = True"
| "GreenletExit_matches _ = False"

text \<open>\<^verbatim>\<open>PyDict_Size\<close> and \<^verbatim>\<open>PySequence_Length\<close>: \<open>-1\<close> on an object of the wrong type.\<close>

fun PyDict_Size :: "pyobj \<Rightarrow> int" where
  "PyDict_Size (PyDict kvs) = int (length kvs)"
| "PyDict_Size _ = -1"

fun PySequence_Length :: "pyobj \<Rightarrow> int" where
  "PySequence_Length (PyTuple xs) = int (length xs)"
| "PySequence_Length (PyStr s) = int (length s)"
| "PySequence_Length _ = -1"

subsection \<open>SwitchingArgs (\<^verbatim>\<open>greenlet_greenlet.hpp\<close>)\<close>

record SwitchingArgs =
  sa_args :: "pyobj option"
  sa_kwargs :: "pyobj option"

definition SwitchingArgs_empty :: SwitchingArgs where
  "SwitchingArgs_empty = \<lparr>sa_args = None, sa_kwargs = None\<rparr>"

text \<open>\<^verbatim>\<open>explicit operator bool\<close>: \<open>_args || _kwargs\<close>.\<close>

definition sa_bool :: "SwitchingArgs \<Rightarrow> bool" where
  "sa_bool a \<longleftrightarrow> sa_args a \<noteq> None \<or> sa_kwargs a \<noteq> None"

text \<open>\<^verbatim>\<open>SwitchingArgs& operator<<=(OwnedObject& args)\<close>: take one object, clear kwargs.\<close>

definition sa_from_object :: "pyobj option \<Rightarrow> SwitchingArgs" where
  "sa_from_object r = \<lparr>sa_args = r, sa_kwargs = None\<rparr>"

text \<open>
  \<^verbatim>\<open>OwnedObject& operator<<=(OwnedObject& lhs, SwitchingArgs& rhs)\<close> (\<^verbatim>\<open>TGreenlet.cpp\<close>).
  The result is the pair of the new \<open>lhs\<close> and the new \<open>rhs\<close>. \<^verbatim>\<open>PyTuple_Pack\<close> with a
  null item has no defined result.
\<close>

definition PyTuple_Pack2 :: "pyobj option \<Rightarrow> pyobj option \<Rightarrow> pyobj option" where
  "PyTuple_Pack2 a b =
     (case a of None \<Rightarrow> None
      | Some x \<Rightarrow> (case b of None \<Rightarrow> None | Some y \<Rightarrow> Some (PyTuple [x, y])))"

definition PySequence_Length_opt :: "pyobj option \<Rightarrow> int" where
  "PySequence_Length_opt a = (case a of None \<Rightarrow> -1 | Some x \<Rightarrow> PySequence_Length x)"

definition object_from_args :: "SwitchingArgs \<Rightarrow> (pyobj option \<times> SwitchingArgs) option" where
  "object_from_args rhs =
     (let args = sa_args rhs;
          kwargs = sa_kwargs rhs;
          rhs' = SwitchingArgs_empty
      in case kwargs of
           None \<Rightarrow> Some (args, rhs')
         | Some kw \<Rightarrow>
             if PyDict_Size kw = 0 then Some (args, rhs')
             else if PySequence_Length_opt args = 0 then Some (kwargs, rhs')
             else (case PyTuple_Pack2 args kwargs of
                     None \<Rightarrow> None
                   | Some t \<Rightarrow> Some (Some t, rhs')))"

text \<open>\<^verbatim>\<open>single_result\<close> (\<^verbatim>\<open>greenlet_greenlet.hpp\<close>): unwrap a 1-tuple.\<close>

fun single_result :: "pyobj option \<Rightarrow> pyobj option" where
  "single_result (Some (PyTuple [x])) = Some x"
| "single_result r = r"

subsection \<open>StackState (\<^verbatim>\<open>TStackState.cpp\<close>)\<close>

record StackState =
  stack_start :: addr
  stack_stop :: addr
  stack_copy :: "byte list option"
  stack_saved :: "64 word"
  stack_prev :: "gid option"

text \<open>\<^verbatim>\<open>StackState::StackState()\<close>: an inactive, unstarted state.\<close>

definition StackState_new :: StackState where
  "StackState_new =
     \<lparr>stack_start = 0, stack_stop = 0, stack_copy = None, stack_saved = 0, stack_prev = None\<rparr>"

text \<open>
  \<^verbatim>\<open>StackState::StackState(void* mark, StackState& current)\<close>: started but inactive;
  \<open>cur\<close> names the greenlet that holds \<open>current\<close>.
\<close>

definition StackState_mark :: "addr \<Rightarrow> gid \<Rightarrow> StackState \<Rightarrow> StackState" where
  "StackState_mark mark cur current =
     \<lparr>stack_start = 0, stack_stop = mark, stack_copy = None, stack_saved = 0,
      stack_prev = (if stack_start current \<noteq> 0 then Some cur else stack_prev current)\<rparr>"

definition make_main :: StackState where
  "make_main = StackState_new\<lparr>stack_start := 1, stack_stop := -1\<rparr>"

definition free_stack_copy :: "StackState \<Rightarrow> StackState" where
  "free_stack_copy s = s\<lparr>stack_copy := None, stack_saved := 0\<rparr>"

definition ss_started :: "StackState \<Rightarrow> bool" where
  "ss_started s \<longleftrightarrow> stack_stop s \<noteq> 0"

definition ss_main :: "StackState \<Rightarrow> bool" where
  "ss_main s \<longleftrightarrow> stack_stop s = -1"

definition ss_active :: "StackState \<Rightarrow> bool" where
  "ss_active s \<longleftrightarrow> stack_start s \<noteq> 0"

definition set_active :: "StackState \<Rightarrow> StackState" where
  "set_active s = s\<lparr>stack_start := 1\<rparr>"

definition set_inactive :: "StackState \<Rightarrow> StackState" where
  "set_inactive s =
     (let s1 = s\<lparr>stack_start := 0\<rparr>
      in if stack_saved s1 \<noteq> 0 then free_stack_copy s1 else s1)"

text \<open>
  \<^verbatim>\<open>StackState::operator=\<close> with a right-hand side that owns no heap copy (the only use
  in the sources is the assignment of a freshly constructed state): the old heap copy is
  freed and every field is taken from \<open>other\<close>. With \<open>stack_saved other \<noteq> 0\<close> the C++
  throws \<^verbatim>\<open>std::runtime_error\<close>, here \<open>None\<close>.
\<close>

definition StackState_assign :: "StackState \<Rightarrow> StackState \<Rightarrow> StackState option" where
  "StackState_assign this other =
     (if stack_saved other \<noteq> 0 then None
      else Some ((free_stack_copy this)
             \<lparr>stack_start := stack_start other, stack_stop := stack_stop other,
              stack_copy := stack_copy other, stack_saved := stack_saved other,
              stack_prev := stack_prev other\<rparr>))"

subsection \<open>Execution context saved around a switch\<close>

text \<open>
  The fields of CPython 3.9's \<^verbatim>\<open>PyThreadState\<close> that \<^verbatim>\<open>TPythonState.cpp\<close> and
  \<^verbatim>\<open>TExceptionState.cpp\<close> read and write (the branches for \<^verbatim>\<open>GREENLET_PY311\<close>,
  \<^verbatim>\<open>GREENLET_PY312\<close> and \<^verbatim>\<open>GREENLET_USE_CFRAME\<close> are not compiled for 3.9), and the error
  indicator. Frames, contexts and exception stack items are opaque identifiers.
\<close>

datatype exc_info_ptr = OwnExcState | ExcStackItem nat

record ExcStackItem =
  exc_value :: "pyerr option"
  previous_item :: "exc_info_ptr option"

record PyThreadState =
  py_frame :: "nat option"
  py_recursion_depth :: int
  py_trash_delete_nesting :: int
  py_context :: "nat option"
  py_context_ver :: nat
  py_exc_info :: "exc_info_ptr option"
  py_exc_state :: ExcStackItem
  py_curexc :: "pyerr option"

record PythonState =
  ps_context :: "nat option"
  ps_top_frame :: "nat option"
  ps_recursion_depth :: int
  ps_trash_delete_nesting :: int

record ExceptionState =
  es_exc_info :: "exc_info_ptr option"
  es_exc_state :: ExcStackItem

definition PythonState_new :: PythonState where
  "PythonState_new =
     \<lparr>ps_context = None, ps_top_frame = None, ps_recursion_depth = 0,
      ps_trash_delete_nesting = 0\<rparr>"

text \<open>\<^verbatim>\<open>PythonState::operator<<\<close>: capture the thread state.\<close>

definition PythonState_save :: "PythonState \<Rightarrow> PyThreadState \<Rightarrow> PythonState" where
  "PythonState_save p t =
     p\<lparr>ps_context := py_context t, ps_recursion_depth := py_recursion_depth t,
       ps_top_frame := py_frame t, ps_trash_delete_nesting := py_trash_delete_nesting t\<rparr>"

text \<open>\<^verbatim>\<open>PythonState::operator>>\<close>: write the capture back; the capture gives up its references.\<close>

definition PythonState_restore :: "PythonState \<Rightarrow> PyThreadState \<Rightarrow> PythonState \<times> PyThreadState" where
  "PythonState_restore p t =
     (p\<lparr>ps_context := None, ps_top_frame := None\<rparr>,
      t\<lparr>py_context := ps_context p, py_context_ver := py_context_ver t + 1,
        py_frame := ps_top_frame p, py_recursion_depth := ps_recursion_depth p,
        py_trash_delete_nesting := ps_trash_delete_nesting p\<rparr>)"

definition set_initial_state :: "PythonState \<Rightarrow> PyThreadState \<Rightarrow> PythonState" where
  "set_initial_state p t = p\<lparr>ps_top_frame := None, ps_recursion_depth := py_recursion_depth t\<rparr>"

text \<open>\<^verbatim>\<open>PythonState::tp_clear(own_top_frame)\<close>.\<close>

definition PythonState_tp_clear :: "bool \<Rightarrow> PythonState \<Rightarrow> PythonState" where
  "PythonState_tp_clear own_top_frame p =
     (let p1 = p\<lparr>ps_context := None\<rparr>
      in if own_top_frame then p1\<lparr>ps_top_frame := None\<rparr> else p1)"

definition ExceptionState_clear :: ExceptionState where
  "ExceptionState_clear =
     \<lparr>es_exc_info = None, es_exc_state = \<lparr>exc_value = None, previous_item = None\<rparr>\<rparr>"

definition ExceptionState_save :: "PyThreadState \<Rightarrow> ExceptionState" where
  "ExceptionState_save t = \<lparr>es_exc_info = py_exc_info t, es_exc_state = py_exc_state t\<rparr>"

definition ExceptionState_restore :: "ExceptionState \<Rightarrow> PyThreadState \<Rightarrow> ExceptionState \<times> PyThreadState" where
  "ExceptionState_restore e t =
     (ExceptionState_clear,
      t\<lparr>py_exc_state := es_exc_state e,
        py_exc_info := (case es_exc_info e of None \<Rightarrow> Some OwnExcState | Some i \<Rightarrow> Some i)\<rparr>)"

subsection \<open>Greenlets, thread states, the world\<close>

datatype greenlet_kind = MainGreenlet | UserGreenlet

text \<open>
  One record for both C++ classes: \<open>g_parent\<close>, \<open>g_main_greenlet\<close> and \<open>g_run_callable\<close>
  are the members of \<^verbatim>\<open>UserGreenlet\<close> (\<^verbatim>\<open>_parent\<close>, \<^verbatim>\<open>_main_greenlet\<close>, \<^verbatim>\<open>_run_callable\<close>),
  \<open>g_thread_state\<close> is the member \<^verbatim>\<open>_thread_state\<close> of \<^verbatim>\<open>MainGreenlet\<close>; virtual functions
  dispatch on \<open>kind\<close>.
\<close>

record Greenlet =
  kind :: greenlet_kind
  exception_state :: ExceptionState
  switch_args :: SwitchingArgs
  stack_state :: StackState
  python_state :: PythonState
  g_parent :: "gid option"
  g_main_greenlet :: "gid option"
  g_run_callable :: "pyobj option"
  g_thread_state :: "tid option"

text \<open>
  A trace function is called with the event name, the origin and the target. It returns
  normally (\<open>None\<close>) or raises (\<open>Some e\<close>); other effects of the Python code it runs are
  outside the model.
\<close>

type_synonym tracefunc = "string \<Rightarrow> gid \<Rightarrow> gid \<Rightarrow> pyerr option"

text \<open>
  Modelled from the spec: the class \<^verbatim>\<open>ThreadState\<close> (\<^verbatim>\<open>greenlet_thread_state.hpp\<close>) is not
  among the sources. The spec's ThreadContext has the running coroutine (\<open>current\<close>), the
  root coroutine of the thread and, per thread, an optional trace hook; the sources use
  them through \<^verbatim>\<open>borrow_current\<close>, \<^verbatim>\<open>get_current\<close>, \<^verbatim>\<open>set_current\<close>, \<^verbatim>\<open>is_current\<close>,
  \<^verbatim>\<open>borrow_main_greenlet\<close>, \<^verbatim>\<open>get_main_greenlet\<close>, \<^verbatim>\<open>get_tracefunc\<close> and \<^verbatim>\<open>set_tracefunc\<close>.
  The deferred-destruction queue is not needed here.
\<close>

record ThreadState =
  ts_main_greenlet :: gid
  ts_current_greenlet :: gid
  ts_tracefunc :: "tracefunc option"

record world =
  greenlets :: "gid \<Rightarrow> Greenlet"
  threads :: "tid \<Rightarrow> ThreadState"
  tstates :: "tid \<Rightarrow> PyThreadState"
  mem :: "addr \<Rightarrow> byte"

definition ss :: "world \<Rightarrow> gid \<Rightarrow> StackState" where
  "ss w g = stack_state (greenlets w g)"

definition args :: "world \<Rightarrow> gid \<Rightarrow> SwitchingArgs" where
  "args w g = switch_args (greenlets w g)"

definition started :: "world \<Rightarrow> gid \<Rightarrow> bool" where
  "started w g = ss_started (ss w g)"

definition active :: "world \<Rightarrow> gid \<Rightarrow> bool" where
  "active w g = ss_active (ss w g)"

text \<open>The three lifecycle states of the spec, as the sources read them off the StackState.\<close>

datatype lifecycle = NotStarted | Active | Dead

definition state :: "world \<Rightarrow> gid \<Rightarrow> lifecycle" where
  "state w g = (if active w g then Active else if started w g then Dead else NotStarted)"

definition set_ss :: "gid \<Rightarrow> StackState \<Rightarrow> world \<Rightarrow> world" where
  "set_ss g s w = w\<lparr>greenlets := (greenlets w)(g := (greenlets w g)\<lparr>stack_state := s\<rparr>)\<rparr>"

definition set_args :: "gid \<Rightarrow> SwitchingArgs \<Rightarrow> world \<Rightarrow> world" where
  "set_args g a w = w\<lparr>greenlets := (greenlets w)(g := (greenlets w g)\<lparr>switch_args := a\<rparr>)\<rparr>"

text \<open>\<^verbatim>\<open>Greenlet::release_args\<close>.\<close>

definition release_args :: "gid \<Rightarrow> world \<Rightarrow> world" where
  "release_args g w = set_args g SwitchingArgs_empty w"

text \<open>
  \<^verbatim>\<open>SwitchingArgs& operator<<=(SwitchingArgs& other)\<close> applied as
  \<^verbatim>\<open>target->args() <<= this->args()\<close>: nothing happens when both are the same object.
\<close>

definition move_args :: "gid \<Rightarrow> gid \<Rightarrow> world \<Rightarrow> world" where
  "move_args target this w =
     (if target = this then w
      else set_args this SwitchingArgs_empty (set_args target (args w this) w))"

definition curexc :: "world \<Rightarrow> tid \<Rightarrow> pyerr option" where
  "curexc w t = py_curexc (tstates w t)"

definition set_curexc :: "tid \<Rightarrow> pyerr option \<Rightarrow> world \<Rightarrow> world" where
  "set_curexc t e w = w\<lparr>tstates := (tstates w)(t := (tstates w t)\<lparr>py_curexc := e\<rparr>)\<rparr>"

definition current :: "world \<Rightarrow> tid \<Rightarrow> gid" where
  "current w t = ts_current_greenlet (threads w t)"

text \<open>\<^verbatim>\<open>parent()\<close>, \<^verbatim>\<open>main_greenlet()\<close> and \<^verbatim>\<open>thread_state()\<close> of the two classes.\<close>

definition parent :: "world \<Rightarrow> gid \<Rightarrow> gid option" where
  "parent w g = (case kind (greenlets w g) of MainGreenlet \<Rightarrow> None
                 | UserGreenlet \<Rightarrow> g_parent (greenlets w g))"

definition main_greenlet :: "world \<Rightarrow> gid \<Rightarrow> gid option" where
  "main_greenlet w g = (case kind (greenlets w g) of MainGreenlet \<Rightarrow> Some g
                        | UserGreenlet \<Rightarrow> g_main_greenlet (greenlets w g))"

definition thread_state :: "world \<Rightarrow> gid \<Rightarrow> tid option" where
  "thread_state w g =
     (case kind (greenlets w g) of
        MainGreenlet \<Rightarrow> g_thread_state (greenlets w g)
      | UserGreenlet \<Rightarrow>
          (case g_main_greenlet (greenlets w g) of
             None \<Rightarrow> None
           | Some m \<Rightarrow> g_thread_state (greenlets w m)))"

text \<open>
  \<^verbatim>\<open>find_main_greenlet_in_lineage\<close>: a started user greenlet answers with its own
  \<^verbatim>\<open>_main_greenlet\<close>, an unstarted one asks its parent. The result \<open>Some None\<close> is the
  null main greenlet; \<open>None\<close> is a walk that does not end.
\<close>

partial_function (option) find_main_greenlet_in_lineage :: "world \<Rightarrow> gid \<Rightarrow> gid option option" where
  "find_main_greenlet_in_lineage w g =
     (case kind (greenlets w g) of
        MainGreenlet \<Rightarrow> Some (Some g)
      | UserGreenlet \<Rightarrow>
          if started w g then Some (g_main_greenlet (greenlets w g))
          else (case g_parent (greenlets w g) of
                  None \<Rightarrow> Some None
                | Some p \<Rightarrow> find_main_greenlet_in_lineage w p))"

text \<open>
  \<^verbatim>\<open>Greenlet::check_switch_allowed\<close>, called on thread \<open>t\<close>. \<open>Inl e\<close> is the thrown
  \<^verbatim>\<open>PyErrOccurred\<close>; the caller sets the error indicator.
\<close>

definition check_switch_allowed :: "world \<Rightarrow> tid \<Rightarrow> gid \<Rightarrow> (pyerr + unit) option" where
  "check_switch_allowed w t g =
     (case find_main_greenlet_in_lineage w g of
        None \<Rightarrow> None
      | Some None \<Rightarrow>
          Some (Inl (PyErr_SetString GreenletError ''cannot switch to a garbage collected greenlet''))
      | Some (Some m) \<Rightarrow>
          if g_thread_state (greenlets w m) = None
          then Some (Inl (PyErr_SetString GreenletError
                 ''cannot switch to a different thread (which happens to have exited)''))
          else
            let current_main_greenlet = ts_main_greenlet (threads w t)
            in if current_main_greenlet \<noteq> m
                  \<or> (main_greenlet w g \<noteq> None \<and> current_main_greenlet \<noteq> m)
                  \<or> g_thread_state (greenlets w current_main_greenlet) = None
               then Some (Inl (PyErr_SetString GreenletError ''cannot switch to a different thread''))
               else Some (Inr ()))"

subsection \<open>Moving stack bytes (\<^verbatim>\<open>TStackState.cpp\<close>)\<close>

text \<open>\<^verbatim>\<open>memcpy(dst, src, n)\<close> with the \<open>n\<close> source bytes given as a list.\<close>

definition memcpy :: "(addr \<Rightarrow> byte) \<Rightarrow> addr \<Rightarrow> byte list \<Rightarrow> (addr \<Rightarrow> byte)" where
  "memcpy m dst bs = (\<lambda>a. if unat (a - dst) < length bs then bs ! unat (a - dst) else m a)"

text \<open>
  The loop of \<^verbatim>\<open>copy_heap_to_stack\<close>:
  \<^verbatim>\<open>while (owner && owner->stack_stop <= this->stack_stop) owner = owner->stack_prev;\<close>
\<close>

partial_function (option) find_owner :: "world \<Rightarrow> addr \<Rightarrow> gid option \<Rightarrow> gid option option" where
  "find_owner w this_stop owner =
     (case owner of
        None \<Rightarrow> Some None
      | Some g \<Rightarrow>
          if stack_stop (ss w g) \<le> this_stop
          then find_owner w this_stop (stack_prev (ss w g))
          else Some (Some g))"

text \<open>
  \<^verbatim>\<open>StackState::copy_heap_to_stack(const StackState& current)\<close> on the StackState of greenlet
  \<open>this\<close>, with \<open>current\<close> the StackState of greenlet \<open>cur\<close>. Reading \<open>stack_saved\<close> bytes
  from a null or shorter heap copy has no defined result.
\<close>

definition restore_bytes :: "world \<Rightarrow> gid \<Rightarrow> world option" where
  "restore_bytes w this =
     (let s = ss w this
      in if stack_saved s \<noteq> 0
         then (case stack_copy s of
                 None \<Rightarrow> None
               | Some b \<Rightarrow>
                   if length b < unat (stack_saved s) then None
                   else Some (set_ss this (free_stack_copy s)
                          (w\<lparr>mem := memcpy (mem w) (stack_start s) (take (unat (stack_saved s)) b)\<rparr>)))
         else Some w)"

definition copy_heap_to_stack :: "world \<Rightarrow> gid \<Rightarrow> gid \<Rightarrow> world option" where
  "copy_heap_to_stack w this cur =
     (case restore_bytes w this of
        None \<Rightarrow> None
      | Some w1 \<Rightarrow>
          let owner = (if stack_start (ss w1 cur) = 0 then stack_prev (ss w1 cur) else Some cur)
          in (case find_owner w1 (stack_stop (ss w1 this)) owner of
                None \<Rightarrow> None
              | Some owner' \<Rightarrow> Some (set_ss this ((ss w1 this)\<lparr>stack_prev := owner'\<rparr>) w1)))"

text \<open>
  \<^verbatim>\<open>StackState::copy_stack_to_heap_up_to(stop)\<close> on the StackState of greenlet \<open>g\<close>. The
  function asserts \<open>_stack_start\<close>; with a null \<open>_stack_start\<close> it would read the stack
  from address \<open>sz1\<close> on, which has no defined result. The reallocated block keeps the
  first \<open>sz1\<close> bytes and receives the stack bytes \<open>sz1 ..< sz2\<close> of the region.
\<close>

definition stack_bytes :: "(addr \<Rightarrow> byte) \<Rightarrow> addr \<Rightarrow> nat \<Rightarrow> nat \<Rightarrow> byte list" where
  "stack_bytes m start sz1 sz2 = map (\<lambda>i. m (start + of_nat i)) [sz1 ..< sz2]"

definition copy_stack_to_heap_up_to :: "world \<Rightarrow> gid \<Rightarrow> addr \<Rightarrow> world option" where
  "copy_stack_to_heap_up_to w g stop =
     (let s = ss w g;
          sz1 = stack_saved s;
          sz2 = stop - stack_start s
      in if stack_start s = 0 then None
         else if sz1 <s sz2
         then Some (set_ss g
                (s\<lparr>stack_copy := Some (take (unat sz1) (case stack_copy s of None \<Rightarrow> [] | Some b \<Rightarrow> b)
                                     @ stack_bytes (mem w) (stack_start s) (unat sz1) (unat sz2)),
                   stack_saved := sz2\<rparr>) w)
         else Some w)"

text \<open>
  The loop of \<^verbatim>\<open>copy_stack_to_heap\<close> and its last step, with \<open>tt = (this, target_stop)\<close>:
  \<^verbatim>\<open>while (owner->stack_stop < target_stop) { owner->copy_stack_to_heap_up_to(owner->stack_stop); owner = owner->stack_prev; }\<close>
  \<^verbatim>\<open>if (owner != this) owner->copy_stack_to_heap_up_to(target_stop);\<close>
\<close>

partial_function (option) save_owners :: "gid \<times> addr \<Rightarrow> world \<Rightarrow> gid option \<Rightarrow> world option" where
  "save_owners tt w owner =
     (case owner of
        None \<Rightarrow> None
      | Some g \<Rightarrow>
          if stack_stop (ss w g) < snd tt
          then (case copy_stack_to_heap_up_to w g (stack_stop (ss w g)) of
                  None \<Rightarrow> None
                | Some w1 \<Rightarrow> save_owners tt w1 (stack_prev (ss w1 g)))
          else if g \<noteq> fst tt then copy_stack_to_heap_up_to w g (snd tt)
          else Some w)"

text \<open>\<^verbatim>\<open>StackState::copy_stack_to_heap(stackref, current)\<close>; the C++ returns 0.\<close>

definition copy_stack_to_heap :: "world \<Rightarrow> gid \<Rightarrow> addr \<Rightarrow> gid \<Rightarrow> world option" where
  "copy_stack_to_heap w this stackref cur =
     (let target_stop = stack_stop (ss w this)
      in if stack_start (ss w cur) = 0
         then save_owners (this, target_stop) w (stack_prev (ss w cur))
         else save_owners (this, target_stop)
                (set_ss cur ((ss w cur)\<lparr>stack_start := stackref\<rparr>) w) (Some cur))"

section \<open>The switch protocol\<close>

subsection \<open>Outcomes and parameters\<close>

text \<open>
  What a call into the runtime leads to. After a stack switch the code that continues is
  the code of another greenlet, so an outcome names the greenlet in which control is:
  \<^item> \<open>Threw e\<close>: the call threw \<^verbatim>\<open>PyErrOccurred\<close> in the calling greenlet, before any switch;
  \<^item> \<open>Finish g r\<close>: \<^verbatim>\<open>g_switch\<close> returned \<open>r\<close> in greenlet \<open>g\<close> (to the switch call that is
    pending there; for a degenerate switch \<open>g\<close> is the caller);
  \<^item> \<open>FinishThrow g e\<close>: \<^verbatim>\<open>g_switch\<close> threw \<open>e\<close> in greenlet \<open>g\<close>;
  \<^item> \<open>CallRun g run a k\<close>: the new greenlet \<open>g\<close> is in \<^verbatim>\<open>inner_bootstrap\<close> and calls
    \<^verbatim>\<open>PyObject_Call(run, a, k)\<close>;
  \<^item> \<open>NoCall g\<close>: the new greenlet \<open>g\<close> is in \<^verbatim>\<open>inner_bootstrap\<close> with a pending exception
    and no call of the run function;
  \<^item> \<open>Fatal msg\<close>: \<^verbatim>\<open>Py_FatalError(msg)\<close>.
\<close>

datatype outcome =
    Threw pyerr
  | Finish gid "pyobj option"
  | FinishThrow gid pyerr
  | CallRun gid pyobj "pyobj option" "pyobj option"
  | NoCall gid
  | Fatal string

record switchstack_result_t =
  status :: int
  the_new_current_greenlet :: "gid option"
  origin_greenlet :: "gid option"

datatype switchstack_outcome = SwResult switchstack_result_t | SwFatal string

text \<open>
  Two addresses come from the machine: \<open>fr_mark\<close> is the address of the local
  \<^verbatim>\<open>dummymarker\<close> of \<^verbatim>\<open>g_switch\<close>, \<open>fr_stackref\<close> the stack pointer read by \<^verbatim>\<open>slp_switch\<close>.
\<close>

record frame =
  fr_mark :: addr
  fr_stackref :: addr

text \<open>
  Python code that the runtime calls is a parameter: \<open>env g w\<close> is
  \<^verbatim>\<open>_self.PyRequireAttr(mod_globs->str_run)\<close> on greenlet \<open>g\<close>; it returns the attribute or
  raises, and, being arbitrary Python code, may change the world.
\<close>

type_synonym env = "gid \<Rightarrow> world \<Rightarrow> (pyerr + pyobj) \<times> world"

record switch_ctx =
  sc_env :: env
  sc_frame :: frame
  sc_tid :: tid
  sc_this :: gid

subsection \<open>Killing in place\<close>

text \<open>\<^verbatim>\<open>Greenlet::deactivate_and_free\<close>.\<close>

definition deactivate_and_free :: "gid \<Rightarrow> world \<Rightarrow> world option" where
  "deactivate_and_free g w =
     (if \<not> active w g then Some w
      else (case StackState_assign (ss w g) StackState_new of
              None \<Rightarrow> None
            | Some s \<Rightarrow>
                Some (w\<lparr>greenlets := (greenlets w)
                       (g := (greenlets w g)
                          \<lparr>stack_state := s,
                           python_state := PythonState_tp_clear True (python_state (greenlets w g))\<rparr>)\<rparr>)))"

text \<open>\<^verbatim>\<open>Greenlet::murder_in_place\<close> and its override \<^verbatim>\<open>UserGreenlet::murder_in_place\<close>.\<close>

definition murder_in_place :: "gid \<Rightarrow> world \<Rightarrow> world option" where
  "murder_in_place g w =
     (let w1 = (case kind (greenlets w g) of
                  MainGreenlet \<Rightarrow> w
                | UserGreenlet \<Rightarrow>
                    w\<lparr>greenlets := (greenlets w)(g := (greenlets w g)\<lparr>g_main_greenlet := None\<rparr>)\<rparr>)
      in if active w1 g then deactivate_and_free g w1 else Some w1)"

subsection \<open>The stack pivot\<close>

text \<open>\<^verbatim>\<open>Greenlet::slp_save_state\<close> and \<^verbatim>\<open>Greenlet::slp_restore_state\<close>.\<close>

definition slp_save_state :: "world \<Rightarrow> gid \<Rightarrow> addr \<Rightarrow> world option" where
  "slp_save_state w this stackref =
     (case thread_state w this of
        None \<Rightarrow> None
      | Some t \<Rightarrow> copy_stack_to_heap w this stackref (current w t))"

definition slp_restore_state :: "world \<Rightarrow> gid \<Rightarrow> world option" where
  "slp_restore_state w this =
     (case thread_state w this of
        None \<Rightarrow> None
      | Some t \<Rightarrow> copy_heap_to_stack w this (current w t))"

text \<open>
  Modelled from the spec: \<^verbatim>\<open>slp_switch\<close> is written in terms of the macros
  \<^verbatim>\<open>SLP_SAVE_STATE\<close> and \<^verbatim>\<open>SLP_RESTORE_STATE\<close> of \<^verbatim>\<open>greenlet_slp_switch.hpp\<close>, which is not
  among the sources. By the spec the pivot evacuates the stack bytes about to be
  overwritten, copies the target's heap copy back and repoints the stack pointer; by the
  comments of \<^verbatim>\<open>switch_aarch64_gcc.h\<close> and \<^verbatim>\<open>g_switchstack\<close> the save macro returns \<open>-1\<close> when
  \<^verbatim>\<open>slp_save_state\<close> fails and \<open>1\<close> on the first switch into a greenlet (the target is not
  active, nothing is restored), and the function returns \<open>0\<close> otherwise. The target is
  the global \<^verbatim>\<open>switching_thread_state\<close>.
\<close>

definition slp_switch :: "world \<Rightarrow> gid \<Rightarrow> addr \<Rightarrow> (int \<times> world) option" where
  "slp_switch w target stackref =
     (case slp_save_state w target stackref of
        None \<Rightarrow> None
      | Some w1 \<Rightarrow>
          if \<not> active w1 target then Some (1, w1)
          else (case slp_restore_state w1 target of
                  None \<Rightarrow> None
                | Some w2 \<Rightarrow> Some (0, w2)))"

text \<open>\<^verbatim>\<open>Greenlet::g_switchstack_success\<close>, running on thread \<open>tid\<close>.\<close>

definition g_switchstack_success :: "world \<Rightarrow> tid \<Rightarrow> gid \<Rightarrow> (gid \<times> world) option" where
  "g_switchstack_success w tid this =
     (let pr = PythonState_restore (python_state (greenlets w this)) (tstates w tid);
          er = ExceptionState_restore (exception_state (greenlets w this)) (snd pr);
          w1 = w\<lparr>greenlets := (greenlets w)
                  (this := (greenlets w this)\<lparr>python_state := fst pr, exception_state := fst er\<rparr>),
                tstates := (tstates w)(tid := snd er)\<rparr>
      in case thread_state w1 this of
           None \<Rightarrow> None
         | Some t \<Rightarrow>
             Some (current w1 t,
                   w1\<lparr>threads := (threads w1)(t := (threads w1 t)\<lparr>ts_current_greenlet := this\<rparr>)\<rparr>))"

text \<open>\<^verbatim>\<open>Greenlet::g_switchstack\<close>, running on thread \<open>tid\<close>.\<close>

definition save_current_state :: "world \<Rightarrow> tid \<Rightarrow> gid \<Rightarrow> world" where
  "save_current_state w tid cur =
     w\<lparr>greenlets := (greenlets w)
          (cur := (greenlets w cur)
             \<lparr>python_state := PythonState_save (python_state (greenlets w cur)) (tstates w tid),
              exception_state := ExceptionState_save (tstates w tid)\<rparr>)\<rparr>"

definition g_switchstack :: "world \<Rightarrow> tid \<Rightarrow> gid \<Rightarrow> addr \<Rightarrow> (switchstack_outcome \<times> world) option" where
  "g_switchstack w tid this stackref =
     (case thread_state w this of
        None \<Rightarrow> None
      | Some t \<Rightarrow>
          if current w t = this
          then Some (SwResult \<lparr>status = 0, the_new_current_greenlet = Some this,
                               origin_greenlet = Some (current w t)\<rparr>, w)
          else (case slp_switch (save_current_state w tid (current w t)) this stackref of
                  None \<Rightarrow> None
                | Some (err, w2) \<Rightarrow>
                    if err < 0
                    then Some (SwFatal ''greenlet: Failed low-level slp_switch(). The stack is probably corrupt.'', w2)
                    else (case g_switchstack_success w2 tid this of
                            None \<Rightarrow> None
                          | Some (origin, w3) \<Rightarrow>
                              Some (SwResult \<lparr>status = err, the_new_current_greenlet = Some this,
                                               origin_greenlet = Some origin\<rparr>, w3))))"

subsection \<open>Arrival: \<^verbatim>\<open>g_calltrace\<close> and \<^verbatim>\<open>g_switch_finish\<close>\<close>

definition set_tracefunc :: "tid \<Rightarrow> tracefunc option \<Rightarrow> world \<Rightarrow> world" where
  "set_tracefunc t f w = w\<lparr>threads := (threads w)(t := (threads w t)\<lparr>ts_tracefunc := f\<rparr>)\<rparr>"

text \<open>
  \<^verbatim>\<open>Greenlet::g_calltrace\<close> on thread \<open>tid\<close>: the pending error is put aside, the trace
  function is called; when it raises, the trace function is removed and its exception
  is thrown (\<open>Some e\<close>), otherwise the pending error is put back.
\<close>

definition g_calltrace :: "world \<Rightarrow> tid \<Rightarrow> tracefunc \<Rightarrow> string \<Rightarrow> gid \<Rightarrow> gid \<Rightarrow> pyerr option \<times> world" where
  "g_calltrace w tid tf event origin target =
     (let saved_exc = curexc w tid;
          w1 = set_curexc tid None w
      in case tf event origin target of
           Some e \<Rightarrow> (Some e, set_tracefunc tid None (set_curexc tid (Some e) w1))
         | None \<Rightarrow> (None, set_curexc tid saved_exc w1))"

text \<open>The first lines of \<^verbatim>\<open>g_switch_finish\<close>: \<^verbatim>\<open>if (this->args()) result <<= this->args();\<close>\<close>

definition take_result :: "world \<Rightarrow> gid \<Rightarrow> (pyobj option \<times> world) option" where
  "take_result w this =
     (if sa_bool (args w this)
      then (case object_from_args (args w this) of
              None \<Rightarrow> None
            | Some (r, a') \<Rightarrow> Some (r, set_args this a' w))
      else Some (None, w))"

text \<open>\<^verbatim>\<open>Greenlet::g_switch_finish\<close>, running on thread \<open>tid\<close> in greenlet \<open>this\<close>.\<close>

definition g_switch_finish :: "world \<Rightarrow> tid \<Rightarrow> gid \<Rightarrow> switchstack_result_t \<Rightarrow> (outcome \<times> world) option" where
  "g_switch_finish w tid this err =
     (case thread_state w this of
        None \<Rightarrow> None
      | Some t \<Rightarrow>
          (case take_result w this of
             None \<Rightarrow> None
           | Some (result, w1) \<Rightarrow>
               (case (case ts_tracefunc (threads w1 t) of
                        None \<Rightarrow> Some (None, w1)
                      | Some tf \<Rightarrow>
                          (case origin_greenlet err of
                             None \<Rightarrow> None
                           | Some og \<Rightarrow>
                               Some (g_calltrace w1 tid tf
                                       (if result \<noteq> None then ''switch'' else ''throw'') og this)))
                of None \<Rightarrow> None
                 | Some (Some e, w2) \<Rightarrow> Some (FinishThrow this e, release_args this w2)
                 | Some (None, w2) \<Rightarrow>
                     (case curexc w2 tid of
                        Some e \<Rightarrow> Some (FinishThrow this e, release_args this w2)
                      | None \<Rightarrow> Some (Finish this result, w2)))))"

subsection \<open>Bootstrap: \<^verbatim>\<open>g_initialstub\<close> and the first half of \<^verbatim>\<open>inner_bootstrap\<close>\<close>

text \<open>
  \<^verbatim>\<open>UserGreenlet::inner_bootstrap\<close> up to the call of the run function, in the new greenlet
  \<open>this\<close> on thread \<open>tid\<close>. A trace function that raises turns the switch into a throw
  (\<^verbatim>\<open>args.CLEAR()\<close>).
\<close>

definition inner_bootstrap :: "world \<Rightarrow> tid \<Rightarrow> gid \<Rightarrow> gid \<Rightarrow> pyobj \<Rightarrow> (outcome \<times> world) option" where
  "inner_bootstrap w tid this origin run =
     (let w1 = set_ss this (set_active (ss w this)) w;
          a = args w1 this;
          w2 = release_args this w1;
          w3 = w2\<lparr>greenlets := (greenlets w2)(this := (greenlets w2 this)\<lparr>g_run_callable := None\<rparr>)\<rparr>
      in case thread_state w3 this of
           None \<Rightarrow> None
         | Some t \<Rightarrow>
             let traced =
                   (case ts_tracefunc (threads w3 t) of
                      None \<Rightarrow> (a, w3)
                    | Some tf \<Rightarrow>
                        (case g_calltrace w3 tid tf (if sa_bool a then ''switch'' else ''throw'') origin this of
                           (None, w4) \<Rightarrow> (a, w4)
                         | (Some e, w4) \<Rightarrow> (SwitchingArgs_empty, w4)))
             in if \<not> sa_bool (fst traced) then Some (NoCall this, snd traced)
                else Some (CallRun this run (sa_args (fst traced)) (sa_kwargs (fst traced)), snd traced))"

datatype stub_outcome =
    StubThrew pyerr
  | StubStartedWhileInPython
  | StubErr switchstack_result_t
  | StubNew outcome
  | StubFatal string

text \<open>The assignments of \<^verbatim>\<open>g_initialstub\<close> under the comment \<^verbatim>\<open>/* start the greenlet */\<close>.\<close>

definition start_greenlet :: "world \<Rightarrow> tid \<Rightarrow> gid \<Rightarrow> addr \<Rightarrow> world option" where
  "start_greenlet w tid this mark =
     (let cur = current w tid
      in case StackState_assign (ss w this) (StackState_mark mark cur (ss w cur)) of
           None \<Rightarrow> None
         | Some s \<Rightarrow>
             Some (w\<lparr>greenlets := (greenlets w)
                    (this := (greenlets w this)
                       \<lparr>stack_state := s,
                        python_state := set_initial_state (python_state (greenlets w this)) (tstates w tid),
                        exception_state := ExceptionState_clear,
                        g_main_greenlet := Some (ts_main_greenlet (threads w tid))\<rparr>)\<rparr>))"

text \<open>The lines of \<^verbatim>\<open>g_initialstub\<close> under \<^verbatim>\<open>/* start failed badly, restore greenlet state */\<close>.\<close>

definition start_failed :: "world \<Rightarrow> gid \<Rightarrow> world option" where
  "start_failed w this =
     (case StackState_assign (ss w this) StackState_new of
        None \<Rightarrow> None
      | Some s \<Rightarrow>
          Some (w\<lparr>greenlets := (greenlets w)
                 (this := (greenlets w this)\<lparr>stack_state := s, g_main_greenlet := None\<rparr>)\<rparr>))"

text \<open>\<^verbatim>\<open>UserGreenlet::g_initialstub(mark)\<close> on thread \<open>tid\<close>.\<close>

definition g_initialstub :: "env \<Rightarrow> frame \<Rightarrow> world \<Rightarrow> tid \<Rightarrow> gid \<Rightarrow> (stub_outcome \<times> world) option" where
  "g_initialstub ev fr w tid this =
     (let a = args w this;
          saved = curexc w tid;
          got = ev this (set_curexc tid None w)
      in case fst got of
           Inl e \<Rightarrow> Some (StubThrew e, set_curexc tid (Some e) (snd got))
         | Inr run \<Rightarrow>
             let w2 = set_curexc tid saved (snd got)
             in (case check_switch_allowed w2 tid this of
                   None \<Rightarrow> None
                 | Some (Inl e) \<Rightarrow> Some (StubThrew e, set_curexc tid (Some e) w2)
                 | Some (Inr _) \<Rightarrow>
                     if started w2 this
                     then Some (StubStartedWhileInPython, set_args this a w2)
                     else (case start_greenlet w2 tid this (fr_mark fr) of
                             None \<Rightarrow> None
                           | Some w3 \<Rightarrow>
                               (case g_switchstack w3 tid this (fr_stackref fr) of
                                  None \<Rightarrow> None
                                | Some (SwFatal m, w4) \<Rightarrow> Some (StubFatal m, w4)
                                | Some (SwResult err, w4) \<Rightarrow>
                                    if status err = 1
                                    then (case origin_greenlet err of
                                            None \<Rightarrow> None
                                          | Some og \<Rightarrow>
                                              (case inner_bootstrap w4 tid this og run of
                                                 None \<Rightarrow> None
                                               | Some (out, w5) \<Rightarrow> Some (StubNew out, w5)))
                                    else if status err < 0
                                    then (case start_failed w4 this of
                                            None \<Rightarrow> None
                                          | Some w5 \<Rightarrow> Some (StubErr err, w5))
                                    else Some (StubErr err, w4)))))"

subsection \<open>\<^verbatim>\<open>g_switch\<close>\<close>

text \<open>\<^verbatim>\<open>Greenlet::on_switchstack_or_initialstub_failure\<close>; it returns a null object to the caller.\<close>

definition on_switchstack_or_initialstub_failure ::
    "world \<Rightarrow> tid \<Rightarrow> gid \<Rightarrow> gid option \<Rightarrow> bool \<Rightarrow> bool \<Rightarrow> (outcome \<times> world) option" where
  "on_switchstack_or_initialstub_failure w tid this target target_was_me was_initial_stub =
     (let w1 = (if curexc w tid = None
                then set_curexc tid (Some (PyErr_SetString SystemError
                       (if was_initial_stub
                        then ''Failed to switch stacks into a greenlet for the first time.''
                        else ''Failed to switch stacks into a running greenlet.''))) w
                else w);
          w2 = release_args this w1
      in case (case target of
                 None \<Rightarrow> Some w2
               | Some tg \<Rightarrow> if \<not> target_was_me then murder_in_place tg w2 else Some w2) of
           None \<Rightarrow> None
         | Some w3 \<Rightarrow> Some (Finish (current w3 tid) None, w3))"

text \<open>The lines of \<^verbatim>\<open>g_switch\<close> after the search for the target.\<close>

definition g_switch_tail ::
    "world \<Rightarrow> tid \<Rightarrow> gid \<Rightarrow> gid option \<Rightarrow> bool \<Rightarrow> bool \<Rightarrow> switchstack_result_t \<Rightarrow> (outcome \<times> world) option" where
  "g_switch_tail w tid this target target_was_me was_initial_stub err =
     (if status err < 0
      then on_switchstack_or_initialstub_failure w tid this target target_was_me was_initial_stub
      else (case the_new_current_greenlet err of
              None \<Rightarrow> None
            | Some n \<Rightarrow> g_switch_finish w tid n err))"

text \<open>
  The loop \<^verbatim>\<open>while (target)\<close> of \<^verbatim>\<open>UserGreenlet::g_switch\<close>. The loop state is the triple
  \<open>(target, target_was_me, was_initial_stub)\<close>.
\<close>

partial_function (option) g_switch_loop ::
    "switch_ctx \<Rightarrow> world \<Rightarrow> gid option \<times> bool \<times> bool \<Rightarrow> (outcome \<times> world) option" where
  "g_switch_loop c w st =
     (case fst st of
        None \<Rightarrow>
          g_switch_tail w (sc_tid c) (sc_this c) None (fst (snd st)) (snd (snd st))
            \<lparr>status = 0, the_new_current_greenlet = None, origin_greenlet = None\<rparr>
      | Some target \<Rightarrow>
          if active w target
          then (let w1 = (if \<not> fst (snd st) then move_args target (sc_this c) w else w)
                in case g_switchstack w1 (sc_tid c) target (fr_stackref (sc_frame c)) of
                     None \<Rightarrow> None
                   | Some (SwFatal m, w2) \<Rightarrow> Some (Fatal m, w2)
                   | Some (SwResult err, w2) \<Rightarrow>
                       g_switch_tail w2 (sc_tid c) (sc_this c) (Some target) (fst (snd st)) (snd (snd st)) err)
          else if \<not> started w target
          then (let w1 = (if \<not> fst (snd st) then move_args target (sc_this c) w else w)
                in case g_initialstub (sc_env c) (sc_frame c) w1 (sc_tid c) target of
                     None \<Rightarrow> None
                   | Some (StubThrew e, w2) \<Rightarrow> Some (Threw e, release_args (sc_this c) w2)
                   | Some (StubStartedWhileInPython, w2) \<Rightarrow>
                       g_switch_loop c w2 (Some target, fst (snd st), True)
                   | Some (StubFatal m, w2) \<Rightarrow> Some (Fatal m, w2)
                   | Some (StubNew out, w2) \<Rightarrow> Some (out, w2)
                   | Some (StubErr err, w2) \<Rightarrow>
                       g_switch_tail w2 (sc_tid c) (sc_this c) (Some target) (fst (snd st)) True err)
          else g_switch_loop c w (parent w target, False, snd (snd st)))"

text \<open>\<^verbatim>\<open>UserGreenlet::g_switch\<close> and \<^verbatim>\<open>MainGreenlet::g_switch\<close> on thread \<open>tid\<close>.\<close>

definition UserGreenlet_g_switch :: "env \<Rightarrow> frame \<Rightarrow> world \<Rightarrow> tid \<Rightarrow> gid \<Rightarrow> (outcome \<times> world) option" where
  "UserGreenlet_g_switch ev fr w tid this =
     (case check_switch_allowed w tid this of
        None \<Rightarrow> None
      | Some (Inl e) \<Rightarrow> Some (Threw e, release_args this (set_curexc tid (Some e) w))
      | Some (Inr _) \<Rightarrow>
          g_switch_loop \<lparr>sc_env = ev, sc_frame = fr, sc_tid = tid, sc_this = this\<rparr> w
            (Some this, True, False))"

definition MainGreenlet_g_switch :: "frame \<Rightarrow> world \<Rightarrow> tid \<Rightarrow> gid \<Rightarrow> (outcome \<times> world) option" where
  "MainGreenlet_g_switch fr w tid this =
     (case check_switch_allowed w tid this of
        None \<Rightarrow> None
      | Some (Inl e) \<Rightarrow> Some (Threw e, release_args this (set_curexc tid (Some e) w))
      | Some (Inr _) \<Rightarrow>
          (case g_switchstack w tid this (fr_stackref fr) of
             None \<Rightarrow> None
           | Some (SwFatal m, w2) \<Rightarrow> Some (Fatal m, w2)
           | Some (SwResult err, w2) \<Rightarrow> g_switch_tail w2 tid this (Some this) True False err))"

definition g_switch :: "env \<Rightarrow> frame \<Rightarrow> world \<Rightarrow> tid \<Rightarrow> gid \<Rightarrow> (outcome \<times> world) option" where
  "g_switch ev fr w tid this =
     (case kind (greenlets w this) of
        MainGreenlet \<Rightarrow> MainGreenlet_g_switch fr w tid this
      | UserGreenlet \<Rightarrow> UserGreenlet_g_switch ev fr w tid this)"

text \<open>
  \<^verbatim>\<open>green_switch(self, args, kwargs)\<close> of \<^verbatim>\<open>greenlet.cpp\<close>, called on thread \<open>tid\<close>. The lines
  after the call of \<^verbatim>\<open>g_switch\<close> run in the greenlet where that call returns: there the
  result passes through \<^verbatim>\<open>single_result\<close>, and a null result without a pending error
  becomes a \<^verbatim>\<open>greenlet.error\<close>. (A greenlet suspended in \<^verbatim>\<open>green_throw\<close> treats the result
  of \<^verbatim>\<open>g_switch\<close> in the same way.)
\<close>

definition green_switch ::
    "env \<Rightarrow> frame \<Rightarrow> world \<Rightarrow> tid \<Rightarrow> gid \<Rightarrow> pyobj \<Rightarrow> pyobj option \<Rightarrow> (outcome \<times> world) option" where
  "green_switch ev fr w tid self a kw =
     (case g_switch ev fr (set_args self \<lparr>sa_args = Some a, sa_kwargs = kw\<rparr> w) tid self of
        None \<Rightarrow> None
      | Some (Finish g r, w2) \<Rightarrow>
          (case single_result r of
             Some p \<Rightarrow> Some (Finish g (Some p), w2)
           | None \<Rightarrow>
               (case curexc w2 tid of
                  Some e \<Rightarrow> Some (FinishThrow g e, w2)
                | None \<Rightarrow>
                    Some (FinishThrow g
                            (PyErr_SetString GreenletError
                               ''Greenlet.switch() returned NULL without an exception set.''),
                          set_curexc tid
                            (Some (PyErr_SetString GreenletError
                               ''Greenlet.switch() returned NULL without an exception set.'')) w2)))
      | Some (out, w2) \<Rightarrow> Some (out, w2))"

subsection \<open>The end of a greenlet: the second half of \<^verbatim>\<open>inner_bootstrap\<close>\<close>

text \<open>\<^verbatim>\<open>g_handle_exit\<close> (\<^verbatim>\<open>TGreenlet.cpp\<close>) on thread \<open>tid\<close>.\<close>

definition g_handle_exit :: "world \<Rightarrow> tid \<Rightarrow> pyobj option \<Rightarrow> pyobj option \<times> world" where
  "g_handle_exit w tid greenlet_result =
     (if greenlet_result = None \<and> GreenletExit_matches (curexc w tid)
      then (case curexc w tid of
              Some (PyErr k (Some val)) \<Rightarrow> (Some val, set_curexc tid None w)
            | _ \<Rightarrow> (Some PyNone, set_curexc tid None w))
      else (case greenlet_result of
              Some r \<Rightarrow> (Some (PyTuple [r]), w)
            | None \<Rightarrow> (None, w)))"

text \<open>
  The loop \<^verbatim>\<open>for (Greenlet* parent = this->_parent; parent; parent = parent->parent())\<close> at
  the end of \<^verbatim>\<open>inner_bootstrap\<close>. The loop state is the pair \<open>(parent, result)\<close>. When
  \<^verbatim>\<open>parent->g_switch()\<close> leaves control in another greenlet, this frame is not continued;
  when it throws or returns in the dying greenlet itself, the loop goes on.
\<close>

partial_function (option) jump_to_parent ::
    "switch_ctx \<Rightarrow> world \<Rightarrow> gid option \<times> pyobj option \<Rightarrow> (outcome \<times> world) option" where
  "jump_to_parent c w st =
     (case fst st of
        None \<Rightarrow>
          Some (Fatal ''greenlet: ran out of parent greenlets while propagating exception; cannot continue'', w)
      | Some p \<Rightarrow>
          (case g_switch (sc_env c) (sc_frame c) (set_args p (sa_from_object (snd st)) w) (sc_tid c) p of
             None \<Rightarrow> None
           | Some (Threw e, w2) \<Rightarrow> jump_to_parent c w2 (parent w2 p, None)
           | Some (FinishThrow g e, w2) \<Rightarrow>
               if g = sc_this c then jump_to_parent c w2 (parent w2 p, None)
               else Some (FinishThrow g e, w2)
           | Some (Finish g r, w2) \<Rightarrow>
               if g = sc_this c then jump_to_parent c w2 (parent w2 p, r)
               else Some (Finish g r, w2)
           | Some (out, w2) \<Rightarrow> Some (out, w2)))"

text \<open>
  \<^verbatim>\<open>UserGreenlet::inner_bootstrap\<close> from the return of \<^verbatim>\<open>PyObject_Call\<close> on, in greenlet
  \<open>this\<close> on thread \<open>tid\<close>: \<open>result\<close> is what the run function returned, or \<open>None\<close> with the
  exception in the error indicator.
\<close>

definition pending_args_result :: "world \<Rightarrow> tid \<Rightarrow> gid \<Rightarrow> pyobj option \<Rightarrow> (pyobj option \<times> world) option" where
  "pending_args_result w tid this result =
     (if result = None \<and> GreenletExit_matches (curexc w tid) \<and> sa_bool (args w this)
      then (case object_from_args (args w this) of
              None \<Rightarrow> None
            | Some (r, a') \<Rightarrow> Some (single_result r, set_args this a' (set_curexc tid None w)))
      else Some (result, w))"

definition inner_bootstrap_exit ::
    "env \<Rightarrow> frame \<Rightarrow> world \<Rightarrow> tid \<Rightarrow> gid \<Rightarrow> pyobj option \<Rightarrow> (outcome \<times> world) option" where
  "inner_bootstrap_exit ev fr w tid this result =
     (case pending_args_result w tid this result of
        None \<Rightarrow> None
      | Some (result1, w1) \<Rightarrow>
          let w2 = release_args this w1;
              he = g_handle_exit w2 tid result1;
              w3 = snd he;
              w4 = set_ss this (set_inactive (ss w3 this)) w3
          in jump_to_parent \<lparr>sc_env = ev, sc_frame = fr, sc_tid = tid, sc_this = this\<rparr> w4
               (g_parent (greenlets w4 this), fst he))"

subsection \<open>Setting the parent (\<^verbatim>\<open>UserGreenlet::parent\<close>, \<^verbatim>\<open>MainGreenlet::parent\<close>)\<close>

text \<open>
  The loop \<^verbatim>\<open>for (BorrowedGreenlet p = new_parent; p; p = p->parent())\<close>; the result is the
  thrown error or the last \<^verbatim>\<open>main_greenlet_of_new_parent\<close>. The type check of
  \<^verbatim>\<open>BorrowedGreenlet new_parent(raw_new_parent.borrow())\<close> lives in \<^verbatim>\<open>greenlet_refs.hpp\<close>, which
  is not among the sources: the model raises \<^verbatim>\<open>TypeError\<close> on an object that is no greenlet,
  and the text of its message stands for the one of that header.
\<close>

partial_function (option) parent_chain_check ::
    "world \<times> gid \<Rightarrow> gid option \<Rightarrow> gid option \<Rightarrow> (pyerr + gid option) option" where
  "parent_chain_check wt p main_greenlet_of_new_parent =
     (case p of
        None \<Rightarrow> Some (Inr main_greenlet_of_new_parent)
      | Some q \<Rightarrow>
          if q = snd wt then Some (Inl (PyErr_SetString ValueError ''cyclic parent chain''))
          else parent_chain_check wt (parent (fst wt) q) (main_greenlet (fst wt) q))"

definition UserGreenlet_set_parent :: "world \<Rightarrow> gid \<Rightarrow> pyobj option \<Rightarrow> (pyerr + world) option" where
  "UserGreenlet_set_parent w this raw_new_parent =
     (case raw_new_parent of
        None \<Rightarrow> Some (Inl (PyErr_SetString AttributeError ''can't delete attribute''))
      | Some (PyGreenletObj new_parent) \<Rightarrow>
          (case parent_chain_check (w, this) (Some new_parent) None of
             None \<Rightarrow> None
           | Some (Inl e) \<Rightarrow> Some (Inl e)
           | Some (Inr None) \<Rightarrow>
               Some (Inl (PyErr_SetString ValueError ''parent must not be garbage collected''))
           | Some (Inr (Some m)) \<Rightarrow>
               if started w this \<and> g_main_greenlet (greenlets w this) \<noteq> Some m
               then Some (Inl (PyErr_SetString ValueError ''parent cannot be on a different thread''))
               else Some (Inr (w\<lparr>greenlets := (greenlets w)
                                (this := (greenlets w this)\<lparr>g_parent := Some new_parent\<rparr>)\<rparr>)))
      | Some _ \<Rightarrow> Some (Inl (PyErr_SetString TypeError ''Expected a greenlet'')))"

definition MainGreenlet_set_parent :: "world \<Rightarrow> gid \<Rightarrow> pyobj option \<Rightarrow> (pyerr + world) option" where
  "MainGreenlet_set_parent w this raw_new_parent =
     (case raw_new_parent of
        None \<Rightarrow> Some (Inl (PyErr_SetString AttributeError ''can't delete attribute''))
      | Some _ \<Rightarrow> Some (Inl (PyErr_SetString AttributeError ''cannot set the parent of a main greenlet'')))"

text \<open>
  \<^verbatim>\<open>green_setparent(self, nparent)\<close> of \<^verbatim>\<open>greenlet.cpp\<close> on thread \<open>tid\<close>: the virtual call,
  with a thrown error left in the error indicator and reported as \<open>Inl\<close> (the C function
  returns \<open>-1\<close>).
\<close>

definition green_setparent :: "world \<Rightarrow> tid \<Rightarrow> gid \<Rightarrow> pyobj option \<Rightarrow> ((pyerr + unit) \<times> world) option" where
  "green_setparent w tid self nparent =
     (case (case kind (greenlets w self) of
              MainGreenlet \<Rightarrow> MainGreenlet_set_parent w self nparent
            | UserGreenlet \<Rightarrow> UserGreenlet_set_parent w self nparent) of
        None \<Rightarrow> None
      | Some (Inl e) \<Rightarrow> Some (Inl e, set_curexc tid (Some e) w)
      | Some (Inr w') \<Rightarrow> Some (Inr (), w'))"

section \<open>Constructors, derived notions and example worlds\<close>

text \<open>
  \<^verbatim>\<open>Greenlet::Greenlet\<close>, \<^verbatim>\<open>MainGreenlet::MainGreenlet(p, state)\<close> and
  \<^verbatim>\<open>UserGreenlet::UserGreenlet(p, the_parent)\<close>.
\<close>

definition Greenlet_new :: "greenlet_kind \<Rightarrow> StackState \<Rightarrow> Greenlet" where
  "Greenlet_new k initial_stack =
     \<lparr>kind = k, exception_state = ExceptionState_clear, switch_args = SwitchingArgs_empty,
      stack_state = initial_stack, python_state = PythonState_new, g_parent = None,
      g_main_greenlet = None, g_run_callable = None, g_thread_state = None\<rparr>"

definition MainGreenlet_new :: "tid \<Rightarrow> Greenlet" where
  "MainGreenlet_new t = (Greenlet_new MainGreenlet make_main)\<lparr>g_thread_state := Some t\<rparr>"

definition UserGreenlet_new :: "gid option \<Rightarrow> Greenlet" where
  "UserGreenlet_new the_parent = (Greenlet_new UserGreenlet StackState_new)\<lparr>g_parent := the_parent\<rparr>"

text \<open>The attribute lookup of \<open>run\<close> on a plain greenlet: the getter \<^verbatim>\<open>UserGreenlet::run()\<close>.\<close>

definition default_getattr_run :: env where
  "default_getattr_run g w =
     (if started w g \<or> g_run_callable (greenlets w g) = None
      then (Inl (PyErr_SetString AttributeError ''run''), w)
      else (case g_run_callable (greenlets w g) of
              Some r \<Rightarrow> (Inr r, w)
            | None \<Rightarrow> (Inl (PyErr_SetString AttributeError ''run''), w)))"

text \<open>\<open>nth_parent w n g\<close> is the \<open>n\<close>-th element of the parent chain of \<open>g\<close> (\<open>g\<close> itself for 0).\<close>

fun nth_parent :: "world \<Rightarrow> nat \<Rightarrow> gid \<Rightarrow> gid option" where
  "nth_parent w 0 g = Some g"
| "nth_parent w (Suc n) g = (case parent w g of None \<Rightarrow> None | Some p \<Rightarrow> nth_parent w n p)"

text \<open>
  \<open>prev_chain w owner xs\<close>: following \<open>stack_prev\<close> from \<open>owner\<close> visits exactly the
  greenlets \<open>xs\<close> and ends at the null pointer.
\<close>

fun prev_chain :: "world \<Rightarrow> gid option \<Rightarrow> gid list \<Rightarrow> bool" where
  "prev_chain w None xs = (xs = [])"
| "prev_chain w (Some g) [] = False"
| "prev_chain w (Some g) (x # xs) = (x = g \<and> prev_chain w (stack_prev (ss w g)) xs)"

text \<open>
  The region of a StackState is the part of the native stack below its \<open>stack_stop\<close>. It
  has a byte at or above the address \<open>a\<close> exactly when \<open>a < stack_stop\<close>.
\<close>

definition reaches_above :: "StackState \<Rightarrow> addr \<Rightarrow> bool" where
  "reaches_above s a \<longleftrightarrow> a < stack_stop s"

text \<open>Two worlds that find the same main greenlet in every lineage.\<close>

definition lineage_agree :: "world \<Rightarrow> world \<Rightarrow> bool" where
  "lineage_agree w w' \<longleftrightarrow>
     (\<forall>x. kind (greenlets w' x) = kind (greenlets w x)
        \<and> stack_stop (ss w' x) = stack_stop (ss w x)
        \<and> g_main_greenlet (greenlets w' x) = g_main_greenlet (greenlets w x)
        \<and> g_parent (greenlets w' x) = g_parent (greenlets w x))"

text \<open>
  Well-formedness of the stack bookkeeping. \<open>buf_ok\<close>: the heap copy holds at least
  \<open>stack_saved\<close> bytes and \<open>stack_saved\<close> is not negative. \<open>chain_ok w cur xs\<close>: the
  stack-ownership chain of the running greenlet \<open>cur\<close> is the list \<open>xs\<close>; every greenlet
  after \<open>cur\<close> in it is active (\<open>cur\<close> itself may be dying), the regions lie one above the
  other, and the chain ends in an active greenlet that owns the rest of the stack
  (\<open>stack_stop = (char*)-1\<close>, a main greenlet).
\<close>

definition heap_bytes :: "StackState \<Rightarrow> byte list" where
  "heap_bytes s = (case stack_copy s of None \<Rightarrow> [] | Some b \<Rightarrow> b)"

definition buf_ok :: "StackState \<Rightarrow> bool" where
  "buf_ok s \<longleftrightarrow> 0 \<le>s stack_saved s \<and> unat (stack_saved s) \<le> length (heap_bytes s)"

definition chain_ok :: "world \<Rightarrow> gid \<Rightarrow> gid list \<Rightarrow> bool" where
  "chain_ok w cur xs \<longleftrightarrow>
     prev_chain w (Some cur) xs
     \<and> (\<forall>g \<in> set (tl xs). stack_start (ss w g) \<noteq> 0)
     \<and> stack_start (ss w (last xs)) \<noteq> 0
     \<and> stack_stop (ss w (last xs)) = -1
     \<and> sorted_wrt (<) (map (\<lambda>g. stack_stop (ss w g)) xs)"

text \<open>
  Relations between the world before and after a step: \<open>stack_rel\<close> allows changes of
  \<open>stack_start\<close> (not to or from null), \<open>stack_copy\<close> and \<open>stack_saved\<close> only; \<open>pivot_rel\<close>
  also allows changes of the native stack and of \<open>stack_prev\<close>.
\<close>

definition stack_rel :: "world \<Rightarrow> world \<Rightarrow> bool" where
  "stack_rel w w' \<longleftrightarrow>
     mem w' = mem w \<and> threads w' = threads w \<and> tstates w' = tstates w
     \<and> (\<forall>x. greenlets w' x = (greenlets w x)\<lparr>stack_state := ss w' x\<rparr>
            \<and> stack_stop (ss w' x) = stack_stop (ss w x)
            \<and> stack_prev (ss w' x) = stack_prev (ss w x)
            \<and> (stack_start (ss w' x) = 0 \<longleftrightarrow> stack_start (ss w x) = 0))"

definition pivot_rel :: "world \<Rightarrow> world \<Rightarrow> bool" where
  "pivot_rel w w' \<longleftrightarrow>
     threads w' = threads w \<and> tstates w' = tstates w
     \<and> (\<forall>x. greenlets w' x = (greenlets w x)\<lparr>stack_state := ss w' x\<rparr>
            \<and> stack_stop (ss w' x) = stack_stop (ss w x)
            \<and> (stack_start (ss w' x) = 0 \<longleftrightarrow> stack_start (ss w x) = 0))"

text \<open>
  Example: two threads. Thread 0 has the main greenlet 0 and the unstarted greenlets 2
  and 3 (children of 0); thread 1 has the main greenlet 10 and the unstarted greenlet 11
  (child of 10). Each thread runs its main greenlet.
\<close>

definition tstate0 :: PyThreadState where
  "tstate0 =
     \<lparr>py_frame = None, py_recursion_depth = 0, py_trash_delete_nesting = 0, py_context = None,
      py_context_ver = 0, py_exc_info = Some OwnExcState,
      py_exc_state = \<lparr>exc_value = None, previous_item = None\<rparr>, py_curexc = None\<rparr>"

definition world0 :: world where
  "world0 =
     \<lparr>greenlets = (\<lambda>_. UserGreenlet_new None)
        (0 := MainGreenlet_new 0, 10 := MainGreenlet_new 1,
         2 := (UserGreenlet_new (Some 0))\<lparr>g_run_callable := Some (PyObject 7)\<rparr>,
         3 := (UserGreenlet_new (Some 0))\<lparr>g_run_callable := Some (PyObject 8)\<rparr>,
         11 := (UserGreenlet_new (Some 10))\<lparr>g_run_callable := Some (PyObject 9)\<rparr>),
      threads = (\<lambda>_. \<lparr>ts_main_greenlet = 10, ts_current_greenlet = 10, ts_tracefunc = None\<rparr>)
        (0 := \<lparr>ts_main_greenlet = 0, ts_current_greenlet = 0, ts_tracefunc = None\<rparr>),
      tstates = (\<lambda>_. tstate0),
      mem = (\<lambda>_. 0)\<rparr>"

definition frame0 :: frame where
  "frame0 = \<lparr>fr_mark = 200, fr_stackref = 190\<rparr>"

text \<open>
  Example: thread 0 in the middle of a run. The main greenlet 0 is suspended with the two
  bytes at 100 and 101 in its heap copy; greenlet 2 (stack region below 102) is running;
  greenlet 3 (stack region from 96 to 98) is suspended with both bytes in its heap copy;
  greenlet 4 is dead; greenlet 5 is not started. All are children of 0.
\<close>

definition suspended_main :: Greenlet where
  "suspended_main =
     (MainGreenlet_new 0)
       \<lparr>stack_state := \<lparr>stack_start = 100, stack_stop = -1, stack_copy = Some [17, 18],
                        stack_saved = 2, stack_prev = None\<rparr>\<rparr>"

definition running_user :: Greenlet where
  "running_user =
     (UserGreenlet_new (Some 0))
       \<lparr>stack_state := \<lparr>stack_start = 1, stack_stop = 102, stack_copy = None,
                        stack_saved = 0, stack_prev = Some 0\<rparr>,
        g_main_greenlet := Some 0\<rparr>"

definition suspended_user :: Greenlet where
  "suspended_user =
     (UserGreenlet_new (Some 0))
       \<lparr>stack_state := \<lparr>stack_start = 96, stack_stop = 98, stack_copy = Some [33, 34],
                        stack_saved = 2, stack_prev = Some 2\<rparr>,
        g_main_greenlet := Some 0\<rparr>"

definition dead_user :: Greenlet where
  "dead_user =
     (UserGreenlet_new (Some 0))
       \<lparr>stack_state := \<lparr>stack_start = 0, stack_stop = 99, stack_copy = None,
                        stack_saved = 0, stack_prev = Some 2\<rparr>,
        g_main_greenlet := Some 0\<rparr>"

definition world1 :: world where
  "world1 =
     \<lparr>greenlets = (\<lambda>_. UserGreenlet_new None)
        (0 := suspended_main, 2 := running_user, 3 := suspended_user, 4 := dead_user,
         5 := (UserGreenlet_new (Some 0))\<lparr>g_run_callable := Some (PyObject 7)\<rparr>),
      threads = (\<lambda>_. \<lparr>ts_main_greenlet = 0, ts_current_greenlet = 2, ts_tracefunc = None\<rparr>),
      tstates = (\<lambda>_. tstate0),
      mem = (\<lambda>_. 0)\<rparr>"

section \<open>Properties\<close>

subsection \<open>Accessors and updates\<close>

lemma ss_set_ss [simp]: "ss (set_ss g s w) x = (if x = g then s else ss w x)"
  by (simp add: ss_def set_ss_def)

lemma ss_mem_update [simp]: "ss (w\<lparr>mem := m\<rparr>) x = ss w x"
  by (simp add: ss_def)

lemma mem_set_ss [simp]: "mem (set_ss g s w) = mem w"
  by (simp add: set_ss_def)

lemma greenlets_set_ss_other: "x \<noteq> g \<Longrightarrow> greenlets (set_ss g s w) x = greenlets w x"
  by (simp add: set_ss_def)

lemma greenlets_set_ss_same: "greenlets (set_ss g s w) g = (greenlets w g)\<lparr>stack_state := s\<rparr>"
  by (simp add: set_ss_def)

lemma threads_set_ss [simp]: "threads (set_ss g s w) = threads w"
  by (simp add: set_ss_def)

lemma tstates_set_ss [simp]: "tstates (set_ss g s w) = tstates w"
  by (simp add: set_ss_def)

subsection \<open>Parent cycles\<close>

lemma parent_chain_check_cyclic:
  "nth_parent w n p = Some c \<Longrightarrow>
   parent_chain_check (w, c) (Some p) m = Some (Inl (PyErr_SetString ValueError ''cyclic parent chain''))"
proof (induction n arbitrary: p m)
  case 0
  then show ?case by (subst parent_chain_check.simps) simp
next
  case (Suc n)
  show ?case
  proof (cases "p = c")
    case True
    then show ?thesis by (subst parent_chain_check.simps) simp
  next
    case False
    from Suc.prems obtain q where q: "parent w p = Some q" "nth_parent w n q = Some c"
      by (auto split: option.splits)
    show ?thesis
      using False q Suc.IH [OF q(2)]
      by (subst parent_chain_check.simps) simp
  qed
qed

text \<open>
  C8, as the code has it. When \<open>c\<close> is in the parent chain of \<open>p\<close> (\<open>p = c\<close> included), setting
  the parent of \<open>c\<close> to \<open>p\<close> is rejected and the world is what it was, but for the error
  indicator: a spawned greenlet raises ValueError "cyclic parent chain", a main greenlet
  raises AttributeError "cannot set the parent of a main greenlet".
\<close>

theorem set_parent_cycle_rejected:
  assumes "nth_parent w n p = Some c"
  shows "\<exists>e w'. green_setparent w tid c (Some (PyGreenletObj p)) = Some (Inl e, w')
           \<and> e = (if kind (greenlets w c) = UserGreenlet
                  then PyErr_SetString ValueError ''cyclic parent chain''
                  else PyErr_SetString AttributeError ''cannot set the parent of a main greenlet'')
           \<and> w' = set_curexc tid (Some e) w
           \<and> greenlets w' = greenlets w
           \<and> parent w' = parent w"
  using parent_chain_check_cyclic [OF assms]
  by (cases "kind (greenlets w c)")
     (simp_all add: green_setparent_def UserGreenlet_set_parent_def MainGreenlet_set_parent_def
                    set_curexc_def parent_def fun_eq_iff split: greenlet_kind.split)

lemma world0_parent_2: "parent world0 2 = Some 0"
  by (simp add: parent_def world0_def UserGreenlet_new_def Greenlet_new_def)

lemma world0_kind_2: "kind (greenlets world0 2) = UserGreenlet"
  by (simp add: world0_def UserGreenlet_new_def Greenlet_new_def)

lemma world0_kind_0: "kind (greenlets world0 0) = MainGreenlet"
  by (simp add: world0_def MainGreenlet_new_def Greenlet_new_def)

theorem set_parent_cycle_rejected_witness:
  "nth_parent world0 0 2 = Some 2
   \<and> green_setparent world0 0 2 (Some (PyGreenletObj 2)) =
       Some (Inl (PyErr_SetString ValueError ''cyclic parent chain''),
             set_curexc 0 (Some (PyErr_SetString ValueError ''cyclic parent chain'')) world0)"
  using set_parent_cycle_rejected [of world0 0 2 2 0] world0_kind_2
  by auto

text \<open>
  The claim C8 as stated fails for a main greenlet: greenlet 0 is in the parent chain of
  its child 2, and setting the parent of 0 to 2 raises AttributeError, not ValueError.
\<close>

theorem set_parent_cycle_counterexample:
  "nth_parent world0 (Suc 0) 2 = Some 0
   \<and> green_setparent world0 0 0 (Some (PyGreenletObj 2)) =
       Some (Inl (PyErr_SetString AttributeError ''cannot set the parent of a main greenlet''),
             set_curexc 0 (Some (PyErr_SetString AttributeError
                                   ''cannot set the parent of a main greenlet'')) world0)
   \<and> PyErr_SetString AttributeError ''cannot set the parent of a main greenlet''
       \<noteq> PyErr_SetString ValueError ''cyclic parent chain''"
  using world0_parent_2 world0_kind_0
  by (simp add: green_setparent_def MainGreenlet_set_parent_def PyErr_SetString_def)

subsection \<open>Thread affinity\<close>

lemma find_main_agree_aux:
  assumes "find_main_greenlet_in_lineage w g = Some r"
  shows "lineage_agree w w' \<longrightarrow> find_main_greenlet_in_lineage w' g = Some r"
proof (rule find_main_greenlet_in_lineage.raw_induct
         [where P = "\<lambda>w g r. lineage_agree w w' \<longrightarrow> find_main_greenlet_in_lineage w' g = Some r",
          OF _ assms])
  fix f w g r
  assume IH: "\<And>w g r. f w g = Some r \<Longrightarrow>
                lineage_agree w w' \<longrightarrow> find_main_greenlet_in_lineage w' g = Some r"
    and step: "(case kind (greenlets w g) of
                  MainGreenlet \<Rightarrow> Some (Some g)
                | UserGreenlet \<Rightarrow>
                    if started w g then Some (g_main_greenlet (greenlets w g))
                    else (case g_parent (greenlets w g) of
                            None \<Rightarrow> Some None
                          | Some p \<Rightarrow> f w p)) = Some r"
  show "lineage_agree w w' \<longrightarrow> find_main_greenlet_in_lineage w' g = Some r"
  proof
    assume ag: "lineage_agree w w'"
    show "find_main_greenlet_in_lineage w' g = Some r"
      using step ag IH
      by (subst find_main_greenlet_in_lineage.simps)
         (auto simp: lineage_agree_def started_def ss_started_def
               split: greenlet_kind.splits option.splits if_splits)
  qed
qed

lemma find_main_agree:
  assumes "find_main_greenlet_in_lineage w g = Some r" and "lineage_agree w w'"
  shows "find_main_greenlet_in_lineage w' g = Some r"
  using find_main_agree_aux [OF assms(1)] assms(2) by blast

lemma lineage_agree_set_args [simp]: "lineage_agree w (set_args g a w)"
  by (simp add: lineage_agree_def set_args_def ss_def)

lemma check_switch_allowed_rejects:
  assumes "find_main_greenlet_in_lineage w g = Some m"
    and "m = None \<or> (\<exists>r. m = Some r \<and> (g_thread_state (greenlets w r) = None
                                   \<or> r \<noteq> ts_main_greenlet (threads w tid)))"
  shows "\<exists>msg. check_switch_allowed w tid g = Some (Inl (PyErr GreenletError msg))"
  using assms
  by (auto simp: check_switch_allowed_def PyErr_SetString_def Let_def)

lemma g_switch_rejected:
  assumes "check_switch_allowed w tid g = Some (Inl e)"
  shows "g_switch ev fr w tid g = Some (Threw e, release_args g (set_curexc tid (Some e) w))"
  using assms
  by (cases "kind (greenlets w g)")
     (simp_all add: g_switch_def UserGreenlet_g_switch_def MainGreenlet_g_switch_def)

text \<open>
  C3. When the main greenlet found in the lineage of the target is null, or its thread has
  exited (its thread state is null), or it is not the main greenlet of the calling
  thread, \<open>switch\<close> raises \<^verbatim>\<open>greenlet.error\<close> in the caller, and the native stack, every
  StackState (bounds, heap copy, saved count, chain link), every saved execution context
  and every thread state are what they were; the payload is released.
\<close>

theorem thread_affinity_enforced:
  assumes "find_main_greenlet_in_lineage w g = Some m"
    and "m = None \<or> (\<exists>r. m = Some r \<and> (g_thread_state (greenlets w r) = None
                                   \<or> r \<noteq> ts_main_greenlet (threads w tid)))"
  shows "\<exists>msg w'. green_switch ev fr w tid g a kw = Some (Threw (PyErr GreenletError msg), w')
           \<and> curexc w' tid = Some (PyErr GreenletError msg)
           \<and> mem w' = mem w
           \<and> (\<forall>x. stack_state (greenlets w' x) = stack_state (greenlets w x))
           \<and> (\<forall>x. python_state (greenlets w' x) = python_state (greenlets w x))
           \<and> threads w' = threads w
           \<and> args w' g = SwitchingArgs_empty"
proof -
  let ?w1 = "set_args g \<lparr>sa_args = Some a, sa_kwargs = kw\<rparr> w"
  have f: "find_main_greenlet_in_lineage ?w1 g = Some m"
    using find_main_agree [OF assms(1)] by simp
  have h: "m = None \<or> (\<exists>r. m = Some r \<and> (g_thread_state (greenlets ?w1 r) = None
                                   \<or> r \<noteq> ts_main_greenlet (threads ?w1 tid)))"
    using assms(2) by (auto simp: set_args_def)
  from check_switch_allowed_rejects [OF f h] obtain msg
    where c: "check_switch_allowed ?w1 tid g = Some (Inl (PyErr GreenletError msg))" by blast
  show ?thesis
    using g_switch_rejected [OF c, of ev fr]
    by (auto simp: green_switch_def release_args_def set_args_def set_curexc_def curexc_def args_def)
qed

lemma world0_lineage_11: "find_main_greenlet_in_lineage world0 11 = Some (Some 10)"
  by (subst find_main_greenlet_in_lineage.simps, simp add: world0_def UserGreenlet_new_def
        MainGreenlet_new_def Greenlet_new_def started_def ss_started_def ss_def StackState_new_def)+

theorem thread_affinity_enforced_witness:
  "find_main_greenlet_in_lineage world0 11 = Some (Some 10)
   \<and> 10 \<noteq> ts_main_greenlet (threads world0 0)
   \<and> (\<exists>msg w'. green_switch default_getattr_run frame0 world0 0 11 (PyTuple [PyInt 5]) None
                  = Some (Threw (PyErr GreenletError msg), w')
          \<and> mem w' = mem world0
          \<and> (\<forall>x. stack_state (greenlets w' x) = stack_state (greenlets world0 x)))"
proof -
  have t: "10 \<noteq> ts_main_greenlet (threads world0 0)"
    by (simp add: world0_def)
  show ?thesis
    using thread_affinity_enforced [OF world0_lineage_11, of 0 default_getattr_run frame0
            "PyTuple [PyInt 5]" None] t world0_lineage_11
    by blast
qed

subsection \<open>Restoring the stack\<close>

lemma reaches_above_iff: "reaches_above s a \<longleftrightarrow> (\<exists>x. a \<le> x \<and> x < stack_stop s)"
  by (auto simp: reaches_above_def)

lemma find_owner_chain:
  "prev_chain w owner xs \<Longrightarrow>
   find_owner w stop owner = Some (find (\<lambda>g. reaches_above (ss w g) stop) xs)"
proof (induction xs arbitrary: owner)
  case Nil
  then show ?case by (cases owner) (simp_all add: find_owner.simps)
next
  case (Cons x xs)
  then obtain g where g: "owner = Some g" "x = g" "prev_chain w (stack_prev (ss w g)) xs"
    by (cases owner) auto
  show ?case
    using g Cons.IH [OF g(3)]
    by (subst find_owner.simps) (auto simp: reaches_above_def not_less)
qed

lemma prev_chain_cong:
  "(\<And>g. stack_prev (ss w' g) = stack_prev (ss w g)) \<Longrightarrow> prev_chain w' owner xs = prev_chain w owner xs"
  by (induction xs arbitrary: owner) (case_tac owner; simp)+

lemma memcpy_inside:
  "i < length bs \<Longrightarrow> length bs < 2 ^ 64 \<Longrightarrow> memcpy m dst bs (dst + of_nat i) = bs ! i"
  by (simp add: memcpy_def unat_of_nat)

lemma memcpy_outside:
  "length bs \<le> unat (a - dst) \<Longrightarrow> memcpy m dst bs a = m a"
  by (simp add: memcpy_def)

lemma memcpy_nil [simp]: "memcpy m dst [] = m"
  by (simp add: memcpy_def)

lemma restore_bytes_post:
  assumes "stack_saved (ss w this) \<noteq> 0 \<longrightarrow>
           (\<exists>b. stack_copy (ss w this) = Some b \<and> unat (stack_saved (ss w this)) \<le> length b)"
  shows "\<exists>w1. restore_bytes w this = Some w1
           \<and> (\<forall>b i. stack_copy (ss w this) = Some b \<longrightarrow> i < unat (stack_saved (ss w this)) \<longrightarrow>
                  mem w1 (stack_start (ss w this) + of_nat i) = b ! i)
           \<and> (\<forall>a. unat (stack_saved (ss w this)) \<le> unat (a - stack_start (ss w this)) \<longrightarrow>
                  mem w1 a = mem w a)
           \<and> (stack_saved (ss w this) = 0 \<longrightarrow> w1 = w)
           \<and> (stack_saved (ss w this) \<noteq> 0 \<longrightarrow> stack_copy (ss w1 this) = None)
           \<and> stack_saved (ss w1 this) = 0
           \<and> stack_start (ss w1 this) = stack_start (ss w this)
           \<and> stack_stop (ss w1 this) = stack_stop (ss w this)
           \<and> (\<forall>g. stack_prev (ss w1 g) = stack_prev (ss w g))
           \<and> (\<forall>g. stack_stop (ss w1 g) = stack_stop (ss w g))
           \<and> (\<forall>g. stack_start (ss w1 g) = stack_start (ss w g))
           \<and> (\<forall>g. g \<noteq> this \<longrightarrow> greenlets w1 g = greenlets w g)
           \<and> threads w1 = threads w \<and> tstates w1 = tstates w
           \<and> greenlets w1 this = (greenlets w this)\<lparr>stack_state := ss w1 this\<rparr>"
proof (cases "stack_saved (ss w this) = 0")
  case True
  then show ?thesis by (simp add: restore_bytes_def ss_def)
next
  case False
  with assms obtain b where b: "stack_copy (ss w this) = Some b"
      "unat (stack_saved (ss w this)) \<le> length b" by blast
  have lt: "unat (stack_saved (ss w this)) < 2 ^ 64"
    using unsigned_less [of "stack_saved (ss w this)"] by simp
  show ?thesis
    using False b lt
    by (auto simp: restore_bytes_def Let_def free_stack_copy_def memcpy_inside memcpy_outside
                   min_def greenlets_set_ss_other set_ss_def ss_def)
qed

lemma copy_heap_to_stack_aux:
  assumes "prev_chain w (if stack_start (ss w cur) = 0 then stack_prev (ss w cur) else Some cur) xs"
    and "stack_saved (ss w this) \<noteq> 0 \<longrightarrow>
           (\<exists>b. stack_copy (ss w this) = Some b \<and> unat (stack_saved (ss w this)) \<le> length b)"
  shows "\<exists>w'. copy_heap_to_stack w this cur = Some w'
           \<and> (\<forall>b i. stack_copy (ss w this) = Some b \<longrightarrow> i < unat (stack_saved (ss w this)) \<longrightarrow>
                  mem w' (stack_start (ss w this) + of_nat i) = b ! i)
           \<and> (\<forall>a. unat (stack_saved (ss w this)) \<le> unat (a - stack_start (ss w this)) \<longrightarrow>
                  mem w' a = mem w a)
           \<and> (stack_saved (ss w this) = 0 \<longrightarrow> mem w' = mem w)
           \<and> (stack_saved (ss w this) \<noteq> 0 \<longrightarrow> stack_copy (ss w' this) = None)
           \<and> stack_saved (ss w' this) = 0
           \<and> stack_prev (ss w' this)
               = find (\<lambda>g. reaches_above (ss w g) (stack_stop (ss w this))) xs
           \<and> stack_start (ss w' this) = stack_start (ss w this)
           \<and> stack_stop (ss w' this) = stack_stop (ss w this)
           \<and> (\<forall>g. g \<noteq> this \<longrightarrow> greenlets w' g = greenlets w g)
           \<and> threads w' = threads w \<and> tstates w' = tstates w
           \<and> greenlets w' this = (greenlets w this)\<lparr>stack_state := ss w' this\<rparr>"
proof -
  from restore_bytes_post [OF assms(2)] obtain w1 where w1:
    "restore_bytes w this = Some w1"
    "\<forall>b i. stack_copy (ss w this) = Some b \<longrightarrow> i < unat (stack_saved (ss w this)) \<longrightarrow>
                  mem w1 (stack_start (ss w this) + of_nat i) = b ! i"
    "\<forall>a. unat (stack_saved (ss w this)) \<le> unat (a - stack_start (ss w this)) \<longrightarrow>
                  mem w1 a = mem w a"
    "stack_saved (ss w this) = 0 \<longrightarrow> w1 = w"
    "stack_saved (ss w this) \<noteq> 0 \<longrightarrow> stack_copy (ss w1 this) = None"
    "stack_saved (ss w1 this) = 0"
    "stack_start (ss w1 this) = stack_start (ss w this)"
    "stack_stop (ss w1 this) = stack_stop (ss w this)"
    "\<forall>g. stack_prev (ss w1 g) = stack_prev (ss w g)"
    "\<forall>g. stack_stop (ss w1 g) = stack_stop (ss w g)"
    "\<forall>g. stack_start (ss w1 g) = stack_start (ss w g)"
    "\<forall>g. g \<noteq> this \<longrightarrow> greenlets w1 g = greenlets w g"
    "threads w1 = threads w" "tstates w1 = tstates w"
    "greenlets w1 this = (greenlets w this)\<lparr>stack_state := ss w1 this\<rparr>"
    by blast
  let ?owner = "if stack_start (ss w1 cur) = 0 then stack_prev (ss w1 cur) else Some cur"
  have ch: "prev_chain w1 ?owner xs"
    using assms(1) w1(9,11) prev_chain_cong [of w1 w] by (simp split: if_splits)
  have fo: "find_owner w1 (stack_stop (ss w1 this)) ?owner
              = Some (find (\<lambda>g. reaches_above (ss w g) (stack_stop (ss w this))) xs)"
    using find_owner_chain [OF ch, of "stack_stop (ss w1 this)"] w1(8,10)
    by (simp add: reaches_above_def)
  have g: "greenlets (set_ss this s w1) this = (greenlets w this)\<lparr>stack_state := s\<rparr>" for s
    using w1(15) by (simp add: set_ss_def)
  show ?thesis
    using w1(1-14) fo g
    by (simp add: copy_heap_to_stack_def Let_def greenlets_set_ss_other)
qed

text \<open>
  C6. Let the StackStates reached from the current one along \<open>stack_prev\<close> (from its
  \<open>stack_prev\<close> when the current greenlet is dying) be \<open>xs\<close>, and let the heap copy of the
  arriving greenlet hold its \<open>stack_saved\<close> bytes. Then \<^verbatim>\<open>copy_heap_to_stack\<close> returns, and
  afterwards: the saved bytes are on the native stack from \<open>stack_start\<close> on and the rest
  of the stack is untouched; the heap copy is freed and \<open>stack_saved\<close> is 0; \<open>stack_prev\<close>
  is the first StackState of \<open>xs\<close> whose region has a byte at or above this greenlet's
  \<open>stack_stop\<close> (null if there is none); \<open>stack_start\<close> and \<open>stack_stop\<close> keep their values and
  no other greenlet changes. With \<open>stack_saved = 0\<close> no byte of the native stack is written.
\<close>

theorem copy_heap_to_stack_post:
  assumes "prev_chain w (if stack_start (ss w cur) = 0 then stack_prev (ss w cur) else Some cur) xs"
    and "stack_saved (ss w this) \<noteq> 0 \<longrightarrow>
           (\<exists>b. stack_copy (ss w this) = Some b \<and> unat (stack_saved (ss w this)) \<le> length b)"
  shows "\<exists>w'. copy_heap_to_stack w this cur = Some w'
           \<and> (\<forall>b i. stack_copy (ss w this) = Some b \<longrightarrow> i < unat (stack_saved (ss w this)) \<longrightarrow>
                  mem w' (stack_start (ss w this) + of_nat i) = b ! i)
           \<and> (\<forall>a. unat (stack_saved (ss w this)) \<le> unat (a - stack_start (ss w this)) \<longrightarrow>
                  mem w' a = mem w a)
           \<and> (stack_saved (ss w this) = 0 \<longrightarrow> mem w' = mem w)
           \<and> (stack_saved (ss w this) \<noteq> 0 \<longrightarrow> stack_copy (ss w' this) = None)
           \<and> stack_saved (ss w' this) = 0
           \<and> stack_prev (ss w' this)
               = find (\<lambda>g. reaches_above (ss w g) (stack_stop (ss w this))) xs
           \<and> stack_start (ss w' this) = stack_start (ss w this)
           \<and> stack_stop (ss w' this) = stack_stop (ss w this)
           \<and> (\<forall>g. g \<noteq> this \<longrightarrow> greenlets w' g = greenlets w g)"
  using copy_heap_to_stack_aux [OF assms] by blast

lemma world1_ss:
  "ss world1 0 = \<lparr>stack_start = 100, stack_stop = -1, stack_copy = Some [17, 18],
                  stack_saved = 2, stack_prev = None\<rparr>"
  "ss world1 2 = \<lparr>stack_start = 1, stack_stop = 102, stack_copy = None,
                  stack_saved = 0, stack_prev = Some 0\<rparr>"
  "ss world1 3 = \<lparr>stack_start = 96, stack_stop = 98, stack_copy = Some [33, 34],
                  stack_saved = 2, stack_prev = Some 2\<rparr>"
  "ss world1 4 = \<lparr>stack_start = 0, stack_stop = 99, stack_copy = None,
                  stack_saved = 0, stack_prev = Some 2\<rparr>"
  by (simp_all add: ss_def world1_def suspended_main_def running_user_def suspended_user_def
                    dead_user_def)

theorem copy_heap_to_stack_post_witness:
  "prev_chain world1 (Some 2) [2, 0]
   \<and> (\<exists>w'. copy_heap_to_stack world1 3 2 = Some w'
          \<and> mem w' 96 = 33 \<and> mem w' 97 = 34
          \<and> stack_saved (ss w' 3) = 0
          \<and> stack_copy (ss w' 3) = None
          \<and> stack_prev (ss w' 3) = Some 2)"
proof -
  have ch: "prev_chain world1
              (if stack_start (ss world1 2) = 0 then stack_prev (ss world1 2) else Some 2) [2, 0]"
    by (simp add: world1_ss)
  have buf: "stack_saved (ss world1 3) \<noteq> 0 \<longrightarrow>
              (\<exists>b. stack_copy (ss world1 3) = Some b \<and> unat (stack_saved (ss world1 3)) \<le> length b)"
    by (simp add: world1_ss)
  from copy_heap_to_stack_post [OF ch buf] obtain w' where w':
    "copy_heap_to_stack world1 3 2 = Some w'"
    "\<forall>b i. stack_copy (ss world1 3) = Some b \<longrightarrow> i < unat (stack_saved (ss world1 3)) \<longrightarrow>
        mem w' (stack_start (ss world1 3) + of_nat i) = b ! i"
    "stack_saved (ss world1 3) \<noteq> 0 \<longrightarrow> stack_copy (ss w' 3) = None"
    "stack_saved (ss w' 3) = 0"
    "stack_prev (ss w' 3) = find (\<lambda>g. reaches_above (ss world1 g) (stack_stop (ss world1 3))) [2, 0]"
    by blast
  have m: "mem w' 96 = 33" "mem w' 97 = 34"
    using w'(2) [rule_format, of "[33, 34]" 0] w'(2) [rule_format, of "[33, 34]" "Suc 0"]
    by (simp_all add: world1_ss)
  have p: "stack_prev (ss w' 3) = Some 2"
    using w'(5) by (simp add: world1_ss reaches_above_def)
  show ?thesis
    using ch w'(1,3,4) m p by (simp add: world1_ss)
qed

subsection \<open>The stack-ownership chain across a pivot\<close>


lemma stack_rel_refl [simp]: "stack_rel w w"
  by (simp add: stack_rel_def ss_def)

lemma stack_rel_trans: "stack_rel w w1 \<Longrightarrow> stack_rel w1 w2 \<Longrightarrow> stack_rel w w2"
  unfolding stack_rel_def
  apply (intro conjI allI)
        apply simp
       apply simp
      apply simp
     apply (metis (no_types, lifting) Greenlet.surjective Greenlet.update_convs(4))
    apply simp
   apply simp
  apply simp
  done

lemma sint_eq_uint_nonneg:
  fixes a :: "64 word"
  assumes "0 \<le> sint a"
  shows "sint a = uint a"
proof -
  have nb: "\<not> bit (uint a) 63"
    using assms by (simp add: sint_uint)
  have "sint a = take_bit 63 (uint a)"
    using nb by (simp add: sint_uint signed_take_bit_eq_if_positive)
  moreover have "take_bit (Suc 63) (uint a) = take_bit 63 (uint a)"
    using nb take_bit_Suc_from_most [of 63 "uint a"] by simp
  moreover have "take_bit (Suc 63) (uint a) = uint a"
    using take_bit_int_eq_self [of "uint a" 64] uint_lt2p [of a] by simp
  ultimately show ?thesis by simp
qed

lemma sless_unat:
  fixes a b :: "64 word"
  assumes a: "0 \<le>s a" and b: "a <s b"
  shows "unat a < unat b \<and> 0 \<le>s b"
proof -
  have a0: "0 \<le> sint a" using a by (simp add: word_sle_eq)
  have lt: "sint a < sint b" using b by (simp add: word_sless_alt)
  from a0 lt have b0: "0 \<le> sint b" by simp
  have "uint a < uint b"
    using sint_eq_uint_nonneg [OF a0] sint_eq_uint_nonneg [OF b0] lt by simp
  then have "a < b" by (simp add: word_less_alt)
  then have "unat a < unat b" by (simp only: word_less_nat_alt)
  moreover have "0 \<le>s b" using b0 by (simp add: word_sle_eq)
  ultimately show ?thesis by simp
qed

lemma length_stack_bytes [simp]: "length (stack_bytes m st a b) = b - a"
  by (simp add: stack_bytes_def)

lemma copy_up_to_defined:
  assumes "stack_start (ss w g) \<noteq> 0" and "buf_ok (ss w g)"
  shows "\<exists>w'. copy_stack_to_heap_up_to w g stop = Some w' \<and> stack_rel w w'
           \<and> (\<forall>x. x \<noteq> g \<longrightarrow> ss w' x = ss w x) \<and> buf_ok (ss w' g)
           \<and> stack_start (ss w' g) = stack_start (ss w g)"
proof (cases "stack_saved (ss w g) <s stop - stack_start (ss w g)")
  case False
  then show ?thesis using assms by (simp add: copy_stack_to_heap_up_to_def Let_def)
next
  case True
  from assms(2) have nn: "0 \<le>s stack_saved (ss w g)" by (simp add: buf_ok_def)
  from sless_unat [OF nn True]
  have lt: "unat (stack_saved (ss w g)) < unat (stop - stack_start (ss w g))"
    and nn2: "0 \<le>s stop - stack_start (ss w g)" by simp_all
  have len0: "min (length (case stack_copy (ss w g) of None \<Rightarrow> [] | Some b \<Rightarrow> b))
                  (unat (stack_saved (ss w g))) = unat (stack_saved (ss w g))"
    using assms(2) by (simp add: buf_ok_def heap_bytes_def min_def)
  show ?thesis
    using True assms(1) lt nn2 len0
    by (auto simp: copy_stack_to_heap_up_to_def Let_def stack_rel_def buf_ok_def heap_bytes_def
                   set_ss_def ss_def)
qed

lemma buf_ok_upd [simp]:
  "buf_ok (s\<lparr>stack_start := x\<rparr>) = buf_ok s"
  "buf_ok (s\<lparr>stack_prev := p\<rparr>) = buf_ok s"
  by (simp_all add: buf_ok_def heap_bytes_def)

lemma stack_rel_prev_chain:
  "stack_rel w w' \<Longrightarrow> prev_chain w' owner xs = prev_chain w owner xs"
  by (rule prev_chain_cong) (simp add: stack_rel_def)

lemma save_owners_defined:
  assumes "prev_chain w owner xs" "xs \<noteq> []" "\<forall>g\<in>set xs. stack_start (ss w g) \<noteq> 0"
    "\<forall>g. buf_ok (ss w g)" "stack_stop (ss w (last xs)) = -1"
  shows "\<exists>w'. save_owners (this, tstop) w owner = Some w' \<and> stack_rel w w' \<and> (\<forall>g. buf_ok (ss w' g))"
  using assms
proof (induction xs arbitrary: w owner)
  case Nil
  then show ?case by simp
next
  case (Cons x xs)
  from Cons.prems(1) have o: "owner = Some x" and ch: "prev_chain w (stack_prev (ss w x)) xs"
    by (cases owner; simp)+
  from Cons.prems(3) have ax: "stack_start (ss w x) \<noteq> 0" by simp
  from Cons.prems(4) have bx: "buf_ok (ss w x)" by simp
  show ?case
  proof (cases "stack_stop (ss w x) < tstop")
    case True
    have ne: "xs \<noteq> []"
    proof
      assume "xs = []"
      with Cons.prems(5) have "stack_stop (ss w x) = -1" by simp
      with True show False by simp
    qed
    from copy_up_to_defined [OF ax bx, of "stack_stop (ss w x)"] obtain w1 where w1:
      "copy_stack_to_heap_up_to w x (stack_stop (ss w x)) = Some w1" "stack_rel w w1"
      "\<forall>y. y \<noteq> x \<longrightarrow> ss w1 y = ss w y" "buf_ok (ss w1 x)" by blast
    have p1: "stack_prev (ss w1 x) = stack_prev (ss w x)"
      using w1(2) by (simp add: stack_rel_def)
    have c1: "prev_chain w1 (stack_prev (ss w1 x)) xs"
      using ch p1 stack_rel_prev_chain [OF w1(2)] by simp
    have a1: "\<forall>g\<in>set xs. stack_start (ss w1 g) \<noteq> 0"
      using Cons.prems(3) w1(2) by (simp add: stack_rel_def)
    have b1: "\<forall>g. buf_ok (ss w1 g)"
      using Cons.prems(4) w1(3,4) by metis
    have l1: "stack_stop (ss w1 (last xs)) = -1"
      using Cons.prems(5) ne w1(2) by (simp add: stack_rel_def)
    from Cons.IH [OF c1 ne a1 b1 l1] obtain w' where w':
      "save_owners (this, tstop) w1 (stack_prev (ss w1 x)) = Some w'" "stack_rel w1 w'"
      "\<forall>g. buf_ok (ss w' g)" by blast
    show ?thesis
      using o True w1(1) w' stack_rel_trans [OF w1(2) w'(2)]
      by (subst save_owners.simps) simp
  next
    case False
    show ?thesis
    proof (cases "x = this")
      case True
      then show ?thesis
        using o False Cons.prems(4) by (subst save_owners.simps) simp
    next
      case neq: False
      from copy_up_to_defined [OF ax bx, of tstop] obtain w1 where w1:
        "copy_stack_to_heap_up_to w x tstop = Some w1" "stack_rel w w1"
        "\<forall>y. y \<noteq> x \<longrightarrow> ss w1 y = ss w y" "buf_ok (ss w1 x)" by blast
      have b1: "\<forall>g. buf_ok (ss w1 g)"
        using Cons.prems(4) w1(3,4) by metis
      show ?thesis
        using o False neq w1(1,2) b1 by (subst save_owners.simps) simp
    qed
  qed
qed

lemma chain_ok_nonempty: "chain_ok w cur xs \<Longrightarrow> xs \<noteq> [] \<and> hd xs = cur"
  by (cases xs) (auto simp: chain_ok_def)

lemma copy_stack_to_heap_defined:
  assumes "chain_ok w cur xs" "\<forall>g. buf_ok (ss w g)" "stackref \<noteq> 0"
  shows "\<exists>w'. copy_stack_to_heap w this stackref cur = Some w' \<and> stack_rel w w'
           \<and> (\<forall>g. buf_ok (ss w' g))"
proof -
  from assms(1) obtain ys where xs: "xs = cur # ys" and ch: "prev_chain w (stack_prev (ss w cur)) ys"
    and act: "\<forall>g\<in>set ys. stack_start (ss w g) \<noteq> 0"
    and la: "stack_start (ss w (last xs)) \<noteq> 0" and ls: "stack_stop (ss w (last xs)) = -1"
    by (cases xs) (auto simp: chain_ok_def)
  show ?thesis
  proof (cases "stack_start (ss w cur) = 0")
    case True
    have ne: "ys \<noteq> []" using la True xs by auto
    have ls': "stack_stop (ss w (last ys)) = -1" using ls ne xs by simp
    from save_owners_defined [OF ch ne act assms(2) ls']
    show ?thesis using True by (simp add: copy_stack_to_heap_def Let_def)
  next
    case False
    let ?w0 = "set_ss cur ((ss w cur)\<lparr>stack_start := stackref\<rparr>) w"
    have r0: "stack_rel w ?w0"
      using False assms(3) by (auto simp: stack_rel_def set_ss_def ss_def)
    have c0: "prev_chain ?w0 (Some cur) xs"
      using assms(1) stack_rel_prev_chain [OF r0] by (simp add: chain_ok_def)
    have a0: "\<forall>g\<in>set xs. stack_start (ss ?w0 g) \<noteq> 0"
      using act xs assms(3) by auto
    have b0: "\<forall>g. buf_ok (ss ?w0 g)"
      using assms(2) by simp
    have l0: "stack_stop (ss ?w0 (last xs)) = -1"
      using ls by auto
    have ne: "xs \<noteq> []" using xs by simp
    from save_owners_defined [OF c0 ne a0 b0 l0, of this "stack_stop (ss w this)"] obtain w' where
      "save_owners (this, stack_stop (ss w this)) ?w0 (Some cur) = Some w'" "stack_rel ?w0 w'"
      "\<forall>g. buf_ok (ss w' g)" by blast
    then show ?thesis
      using False stack_rel_trans [OF r0] by (simp add: copy_stack_to_heap_def Let_def)
  qed
qed

lemma stack_rel_pivot: "stack_rel w w' \<Longrightarrow> pivot_rel w w'"
  by (simp add: stack_rel_def pivot_rel_def)

lemma pivot_rel_trans: "pivot_rel w w1 \<Longrightarrow> pivot_rel w1 w2 \<Longrightarrow> pivot_rel w w2"
  unfolding pivot_rel_def
  apply (intro conjI allI)
      apply simp
     apply simp
    apply (metis (no_types, lifting) Greenlet.surjective Greenlet.update_convs(4))
   apply simp
  apply simp
  done

lemma prev_chain_find:
  "prev_chain w owner xs \<Longrightarrow> prev_chain w (find P xs) (dropWhile (\<lambda>g. \<not> P g) xs)"
proof (induction xs arbitrary: owner)
  case Nil
  then show ?case by (cases owner) simp_all
next
  case (Cons x xs)
  from Cons.prems have o: "owner = Some x" and ch: "prev_chain w (stack_prev (ss w x)) xs"
    by (cases owner; simp)+
  show ?case using o ch Cons.IH [OF ch] by simp
qed

lemma prev_chain_cong_set:
  "\<forall>g\<in>set xs. stack_prev (ss w' g) = stack_prev (ss w g) \<Longrightarrow>
   prev_chain w' owner xs = prev_chain w owner xs"
proof (induction xs arbitrary: owner)
  case Nil
  then show ?case by (cases owner) simp_all
next
  case (Cons x xs)
  from Cons.prems have "\<forall>g\<in>set xs. stack_prev (ss w' g) = stack_prev (ss w g)" by simp
  from Cons.IH [OF this] have ih: "prev_chain w' o' xs = prev_chain w o' xs" for o' .
  from Cons.prems have px: "stack_prev (ss w' x) = stack_prev (ss w x)" by simp
  show ?case
  proof (cases owner)
    case None
    then show ?thesis by simp
  next
    case (Some g)
    show ?thesis
    proof (cases "x = g")
      case True
      with Some px show ?thesis by (simp add: ih)
    next
      case False
      with Some show ?thesis by simp
    qed
  qed
qed

lemma dropWhile_sorted_above:
  "sorted_wrt (<) (map f xs) \<Longrightarrow> g \<in> set (dropWhile (\<lambda>g. \<not> a < f g) xs) \<Longrightarrow> (a::addr) < f g"
proof (induction xs)
  case Nil
  then show ?case by simp
next
  case (Cons x xs)
  show ?case
  proof (cases "a < f x")
    case True
    with Cons.prems show ?thesis by auto
  next
    case False
    with Cons show ?thesis by simp
  qed
qed

lemma sorted_wrt_dropWhile:
  "sorted_wrt R (map f xs) \<Longrightarrow> sorted_wrt R (map f (dropWhile P xs))"
  by (induction xs) auto

lemma last_dropWhile: "dropWhile P xs \<noteq> [] \<Longrightarrow> last (dropWhile P xs) = last xs"
  by (induction xs) (auto split: if_splits)

lemma dropWhile_nil_last: "dropWhile P xs = [] \<Longrightarrow> xs \<noteq> [] \<Longrightarrow> P (last xs)"
  by (induction xs) (auto split: if_splits)

lemma copy_heap_to_stack_arrive:
  assumes ch: "chain_ok w cur xs" and bufs: "\<forall>g. buf_ok (ss w g)"
    and act: "stack_start (ss w T) \<noteq> 0"
  shows "\<exists>w' ys. copy_heap_to_stack w T cur = Some w' \<and> chain_ok w' T ys
           \<and> (\<forall>g. buf_ok (ss w' g)) \<and> pivot_rel w w'"
proof -
  define xs0 where "xs0 = (if stack_start (ss w cur) = 0 then tl xs else xs)"
  define o0 where "o0 = (if stack_start (ss w cur) = 0 then stack_prev (ss w cur) else Some cur)"
  define P where "P = (\<lambda>g. reaches_above (ss w g) (stack_stop (ss w T)))"
  define ys where "ys = dropWhile (\<lambda>g. \<not> P g) xs0"
  from ch obtain zs where xs: "xs = cur # zs" and chz: "prev_chain w (stack_prev (ss w cur)) zs"
    and actz: "\<forall>g\<in>set zs. stack_start (ss w g) \<noteq> 0"
    and la: "stack_start (ss w (last xs)) \<noteq> 0" and ls: "stack_stop (ss w (last xs)) = -1"
    and so: "sorted_wrt (<) (map (\<lambda>g. stack_stop (ss w g)) xs)"
    by (cases xs) (auto simp: chain_ok_def)
  have c0: "prev_chain w o0 xs0"
    using ch xs chz by (simp add: chain_ok_def o0_def xs0_def)
  have ne0: "xs0 \<noteq> []" using la xs by (auto simp: xs0_def)
  have last0: "last xs0 = last xs" using ne0 xs by (auto simp: xs0_def)
  have act0: "\<forall>g\<in>set xs0. stack_start (ss w g) \<noteq> 0"
    using actz xs by (auto simp: xs0_def)
  have so0: "sorted_wrt (<) (map (\<lambda>g. stack_stop (ss w g)) xs0)"
    using so xs by (auto simp: xs0_def)
  have buf: "stack_saved (ss w T) \<noteq> 0 \<longrightarrow>
           (\<exists>b. stack_copy (ss w T) = Some b \<and> unat (stack_saved (ss w T)) \<le> length b)"
    using bufs [rule_format, of T]
    by (cases "stack_copy (ss w T)") (auto simp: buf_ok_def heap_bytes_def unat_eq_zero)
  from copy_heap_to_stack_aux [OF c0 [unfolded o0_def] buf] obtain w' where
    w'1: "copy_heap_to_stack w T cur = Some w'"
    and w'2: "stack_saved (ss w' T) = 0"
    and w'3: "stack_prev (ss w' T) = find (\<lambda>g. reaches_above (ss w g) (stack_stop (ss w T))) xs0"
    and w'4: "stack_start (ss w' T) = stack_start (ss w T)"
    and w'5: "stack_stop (ss w' T) = stack_stop (ss w T)"
    and w'6: "\<forall>g. g \<noteq> T \<longrightarrow> greenlets w' g = greenlets w g"
    and w'7: "threads w' = threads w" and w'8: "tstates w' = tstates w"
    and w'9: "greenlets w' T = (greenlets w T)\<lparr>stack_state := ss w' T\<rparr>"
    by (elim exE conjE) (rule that)
  note w' = w'1 w'2 w'3 [folded P_def] w'4 w'5 w'6 w'7 w'8 w'9
  have other: "ss w' g = ss w g" if "g \<noteq> T" for g
    using w'(6) that by (simp add: ss_def)
  have stop_same: "stack_stop (ss w' g) = stack_stop (ss w g)" for g
    using w'(5) other [of g] by (cases "g = T") simp_all
  have start_same: "stack_start (ss w' g) = stack_start (ss w g)" for g
    using w'(4) other [of g] by (cases "g = T") simp_all
  have above: "stack_stop (ss w T) < stack_stop (ss w g)" if "g \<in> set ys" for g
    using dropWhile_sorted_above [OF so0, of g "stack_stop (ss w T)"] that
    by (simp add: reaches_above_def ys_def P_def)
  have notin: "T \<notin> set ys"
    using above [of T] by auto
  have sub: "g \<in> set xs0" if "g \<in> set ys" for g
    using that set_dropWhileD [of g "\<lambda>g. \<not> P g" xs0] by (simp add: ys_def)
  have chy: "prev_chain w (find P xs0) ys"
    unfolding ys_def by (rule prev_chain_find [OF c0])
  have "prev_chain w' (find P xs0) ys = prev_chain w (find P xs0) ys"
  proof (rule prev_chain_cong_set, rule ballI)
    fix g assume "g \<in> set ys"
    with notin have "g \<noteq> T" by auto
    then show "stack_prev (ss w' g) = stack_prev (ss w g)" using other by simp
  qed
  with chy have chy': "prev_chain w' (find P xs0) ys" by simp
  have c1: "prev_chain w' (Some T) (T # ys)"
    using chy' w'(3) by simp
  have a1: "\<forall>g\<in>set ys. stack_start (ss w' g) \<noteq> 0"
    using act0 sub start_same by auto
  have l1: "stack_start (ss w' (last (T # ys))) \<noteq> 0"
  proof (cases "ys = []")
    case True
    then show ?thesis using act start_same by simp
  next
    case False
    then have "last ys \<in> set ys" by simp
    with a1 False show ?thesis by simp
  qed
  have l2: "stack_stop (ss w' (last (T # ys))) = -1"
  proof (cases "ys = []")
    case True
    then have "dropWhile (\<lambda>g. \<not> P g) xs0 = []" by (simp add: ys_def)
    from dropWhile_nil_last [OF this ne0] have "\<not> P (last xs0)" .
    then have "stack_stop (ss w (last xs)) \<le> stack_stop (ss w T)"
      using last0 by (simp add: reaches_above_def not_less P_def)
    with ls have "stack_stop (ss w T) = -1" by (simp add: word_order.extremum_unique)
    with True stop_same show ?thesis by simp
  next
    case False
    then have "dropWhile (\<lambda>g. \<not> P g) xs0 \<noteq> []" by (simp add: ys_def)
    from last_dropWhile [OF this] have "last ys = last xs" using last0 by (simp add: ys_def)
    with False ls stop_same show ?thesis by simp
  qed
  have s0: "sorted_wrt (<) (map (\<lambda>g. stack_stop (ss w g)) ys)"
    unfolding ys_def by (rule sorted_wrt_dropWhile [OF so0])
  have s1: "sorted_wrt (<) (map (\<lambda>g. stack_stop (ss w' g)) (T # ys))"
    using s0 above stop_same by simp
  have c: "chain_ok w' T (T # ys)"
    unfolding chain_ok_def using c1 a1 l1 l2 s1 by simp
  have b: "\<forall>g. buf_ok (ss w' g)"
  proof
    fix g show "buf_ok (ss w' g)"
    proof (cases "g = T")
      case True
      then show ?thesis using w'(2) by (simp add: buf_ok_def)
    next
      case False
      then show ?thesis using bufs other by simp
    qed
  qed
  have gr: "greenlets w' g = (greenlets w g)\<lparr>stack_state := ss w' g\<rparr>" for g
  proof (cases "g = T")
    case True
    then show ?thesis using w'(9) by simp
  next
    case False
    then have "greenlets w' g = greenlets w g" using w'(6) by simp
    then show ?thesis by (simp add: ss_def)
  qed
  have p: "pivot_rel w w'"
    unfolding pivot_rel_def
  proof (intro conjI allI)
    show "threads w' = threads w" by (rule w'(7))
    show "tstates w' = tstates w" by (rule w'(8))
    show "greenlets w' x = (greenlets w x)\<lparr>stack_state := ss w' x\<rparr>" for x by (rule gr)
    show "stack_stop (ss w' x) = stack_stop (ss w x)" for x by (rule stop_same)
    show "(stack_start (ss w' x) = 0) = (stack_start (ss w x) = 0)" for x
      by (simp only: start_same)
  qed
  show ?thesis using w'(1) c b p by blast
qed


section \<open>Payload packaging\<close>

lemma object_from_args_clears:
  "object_from_args rhs = Some (r, rhs') \<Longrightarrow> rhs' = SwitchingArgs_empty"
  by (auto simp: object_from_args_def Let_def split: option.splits if_splits)

text \<open>
  C10. A payload of positional arguments \<open>args\<close> (a tuple) and keyword arguments (absent,
  or a dict) is delivered as: \<open>args\<close> when the keywords are absent or empty; the keyword
  dict when \<open>args\<close> is empty; the 2-tuple \<open>(args, kwargs)\<close> otherwise. The source
  \<open>SwitchingArgs\<close> is empty after the delivery, so a second delivery from it has nothing
  to hand over.
\<close>

theorem payload_packaging:
  assumes "sa_args rhs = Some (PyTuple xs)"
    and "sa_kwargs rhs = None \<or> (\<exists>kvs. sa_kwargs rhs = Some (PyDict kvs))"
  shows "\<exists>r rhs'. object_from_args rhs = Some (r, rhs')
           \<and> r = (case sa_kwargs rhs of
                    None \<Rightarrow> Some (PyTuple xs)
                  | Some kw \<Rightarrow>
                      if kw = PyDict [] then Some (PyTuple xs)
                      else if xs = [] then Some kw
                      else Some (PyTuple [PyTuple xs, kw]))
           \<and> rhs' = SwitchingArgs_empty
           \<and> \<not> sa_bool rhs'"
  using assms
  by (auto simp: object_from_args_def Let_def PyTuple_Pack2_def PySequence_Length_opt_def
                 SwitchingArgs_empty_def sa_bool_def)

theorem payload_packaging_witness:
  "object_from_args \<lparr>sa_args = Some (PyTuple [PyInt 1]), sa_kwargs = Some (PyDict [(PyStr ''k'', PyInt 2)])\<rparr>
     = Some (Some (PyTuple [PyTuple [PyInt 1], PyDict [(PyStr ''k'', PyInt 2)]]), SwitchingArgs_empty)
   \<and> object_from_args \<lparr>sa_args = Some (PyTuple [PyInt 1]), sa_kwargs = None\<rparr>
     = Some (Some (PyTuple [PyInt 1]), SwitchingArgs_empty)
   \<and> object_from_args \<lparr>sa_args = Some (PyTuple []), sa_kwargs = Some (PyDict [(PyStr ''k'', PyInt 2)])\<rparr>
     = Some (Some (PyDict [(PyStr ''k'', PyInt 2)]), SwitchingArgs_empty)"
  using payload_packaging [of "\<lparr>sa_args = Some (PyTuple [PyInt 1]), sa_kwargs = Some (PyDict [(PyStr ''k'', PyInt 2)])\<rparr>" "[PyInt 1]"]
        payload_packaging [of "\<lparr>sa_args = Some (PyTuple [PyInt 1]), sa_kwargs = None\<rparr>" "[PyInt 1]"]
        payload_packaging [of "\<lparr>sa_args = Some (PyTuple []), sa_kwargs = Some (PyDict [(PyStr ''k'', PyInt 2)])\<rparr>" "[]"]
  by auto

end
